theory Spec2Isabelle
  imports Complex_Main
begin

section \<open>JavaScript numbers\<close>

text \<open>
  A JavaScript number is a finite number, or one of the three special values of the
  language: not-a-number and the two infinities. The sign of zero is not modelled. The
  special values follow the language: every operation with a not-a-number operand
  yields not-a-number, and every comparison with it is false.

  The operations of this section compute on finite numbers exactly, without the
  rounding and without the overflow of the binary floating-point format. They are the
  arithmetic in which the arrival estimates are evaluated; see the next section for
  what in the model does not rest on them.
\<close>

datatype jsnum = NaN | Fin real | PosInf | NegInf

fun is_fin :: "jsnum \<Rightarrow> bool" where
  "is_fin (Fin a) = True"
| "is_fin _ = False"

text \<open>The sign of a number, and the infinity (or not-a-number) with a given sign.\<close>

fun sgn_of :: "jsnum \<Rightarrow> real" where
  "sgn_of (Fin a) = sgn a"
| "sgn_of PosInf = 1"
| "sgn_of NegInf = - 1"
| "sgn_of NaN = 0"

definition inf_of_sign :: "real \<Rightarrow> jsnum" where
  "inf_of_sign s = (if 0 < s then PosInf else if s < 0 then NegInf else NaN)"

fun js_neg :: "jsnum \<Rightarrow> jsnum" where
  "js_neg (Fin a) = Fin (- a)"
| "js_neg NaN = NaN"
| "js_neg PosInf = NegInf"
| "js_neg NegInf = PosInf"

fun js_add :: "jsnum \<Rightarrow> jsnum \<Rightarrow> jsnum" where
  "js_add (Fin a) (Fin b) = Fin (a + b)"
| "js_add NaN _ = NaN"
| "js_add _ NaN = NaN"
| "js_add PosInf NegInf = NaN"
| "js_add NegInf PosInf = NaN"
| "js_add PosInf _ = PosInf"
| "js_add _ PosInf = PosInf"
| "js_add NegInf _ = NegInf"
| "js_add _ NegInf = NegInf"

definition js_sub :: "jsnum \<Rightarrow> jsnum \<Rightarrow> jsnum" where
  "js_sub a b = js_add a (js_neg b)"

fun js_mul :: "jsnum \<Rightarrow> jsnum \<Rightarrow> jsnum" where
  "js_mul (Fin a) (Fin b) = Fin (a * b)"
| "js_mul NaN _ = NaN"
| "js_mul _ NaN = NaN"
| "js_mul a b = inf_of_sign (sgn_of a * sgn_of b)"

fun js_div :: "jsnum \<Rightarrow> jsnum \<Rightarrow> jsnum" where
  "js_div (Fin a) (Fin b) = (if b = 0 then inf_of_sign (sgn a) else Fin (a / b))"
| "js_div NaN _ = NaN"
| "js_div _ NaN = NaN"
| "js_div (Fin a) _ = Fin 0"
| "js_div a (Fin b) = inf_of_sign (sgn_of a * (if b < 0 then - 1 else 1))"
| "js_div _ _ = NaN"

text \<open>The comparisons \<open><\<close>, \<open>>\<close> and \<open><=\<close> of the language.\<close>

fun js_lt :: "jsnum \<Rightarrow> jsnum \<Rightarrow> bool" where
  "js_lt (Fin a) (Fin b) = (a < b)"
| "js_lt NaN _ = False"
| "js_lt _ NaN = False"
| "js_lt PosInf _ = False"
| "js_lt _ NegInf = False"
| "js_lt _ _ = True"

definition js_gt :: "jsnum \<Rightarrow> jsnum \<Rightarrow> bool" where
  "js_gt a b = js_lt b a"

definition js_le :: "jsnum \<Rightarrow> jsnum \<Rightarrow> bool" where
  "js_le a b = (a \<noteq> NaN \<and> b \<noteq> NaN \<and> \<not> js_lt b a)"

text \<open>\<open>Math.max\<close>, \<open>Math.round\<close>, \<open>Math.sin\<close>, \<open>Math.cos\<close>, \<open>Math.sqrt\<close>.\<close>

definition js_max :: "jsnum \<Rightarrow> jsnum \<Rightarrow> jsnum" where
  "js_max a b = (if a = NaN \<or> b = NaN then NaN else if js_lt a b then b else a)"

fun js_round :: "jsnum \<Rightarrow> jsnum" where
  "js_round (Fin a) = Fin (of_int \<lfloor>a + 1 / 2\<rfloor>)"
| "js_round a = a"

fun js_sin :: "jsnum \<Rightarrow> jsnum" where
  "js_sin (Fin a) = Fin (sin a)"
| "js_sin _ = NaN"

fun js_cos :: "jsnum \<Rightarrow> jsnum" where
  "js_cos (Fin a) = Fin (cos a)"
| "js_cos _ = NaN"

fun js_sqrt :: "jsnum \<Rightarrow> jsnum" where
  "js_sqrt (Fin a) = (if a < 0 then NaN else Fin (sqrt a))"
| "js_sqrt PosInf = PosInf"
| "js_sqrt _ = NaN"

text \<open>\<open>Math.atan2(y, x)\<close>: the angle of the point \<open>(x, y)\<close>, in \<open>(-\<pi>, \<pi>]\<close>.\<close>

definition atan2_real :: "real \<Rightarrow> real \<Rightarrow> real" where
  "atan2_real y x =
     (if 0 < x then arctan (y / x)
      else if x < 0 then (if 0 \<le> y then arctan (y / x) + pi else arctan (y / x) - pi)
      else if 0 < y then pi / 2
      else if y < 0 then - (pi / 2)
      else 0)"

fun js_atan2 :: "jsnum \<Rightarrow> jsnum \<Rightarrow> jsnum" where
  "js_atan2 (Fin y) (Fin x) = Fin (atan2_real y x)"
| "js_atan2 NaN _ = NaN"
| "js_atan2 _ NaN = NaN"
| "js_atan2 (Fin y) PosInf = Fin 0"
| "js_atan2 (Fin y) NegInf = Fin (if y < 0 then - pi else pi)"
| "js_atan2 PosInf (Fin x) = Fin (pi / 2)"
| "js_atan2 NegInf (Fin x) = Fin (- (pi / 2))"
| "js_atan2 PosInf PosInf = Fin (pi / 4)"
| "js_atan2 PosInf NegInf = Fin (3 * pi / 4)"
| "js_atan2 NegInf PosInf = Fin (- (pi / 4))"
| "js_atan2 NegInf NegInf = Fin (- (3 * pi / 4))"

section \<open>Arithmetic of the engine\<close>

text \<open>
  The engine computes in binary floating point: it rounds the result of every
  operation, a result beyond the range of the format becomes infinite, and
  \<open>Math.sin\<close>, \<open>Math.cos\<close> and \<open>Math.atan2\<close> are approximations that the engine
  chooses. The value of a distance depends on all of that. The distance function is
  therefore written over an arithmetic that is its parameter: the four operations, the
  functions of \<open>Math\<close> that it calls, and the constant \<open>Math.PI\<close>.
\<close>

record arith =
  fl_add :: "jsnum \<Rightarrow> jsnum \<Rightarrow> jsnum"
  fl_sub :: "jsnum \<Rightarrow> jsnum \<Rightarrow> jsnum"
  fl_mul :: "jsnum \<Rightarrow> jsnum \<Rightarrow> jsnum"
  fl_div :: "jsnum \<Rightarrow> jsnum \<Rightarrow> jsnum"
  Math_sin :: "jsnum \<Rightarrow> jsnum"
  Math_cos :: "jsnum \<Rightarrow> jsnum"
  Math_sqrt :: "jsnum \<Rightarrow> jsnum"
  Math_atan2 :: "jsnum \<Rightarrow> jsnum \<Rightarrow> jsnum"
  Math_PI :: jsnum

text \<open>
  What the properties of the distance need of the arithmetic. Each line holds of the
  floating-point arithmetic of the engines: rounding is symmetric under a change of
  sign and leaves zero and one alone, a difference \<open>x - x\<close> of a finite number is
  zero, a product with zero is zero, a product of two numbers between \<open>-1\<close> and \<open>1\<close>
  and a quotient by a number of magnitude at least one do not overflow, the sine is
  odd, and the cosine of a finite number lies between \<open>-1\<close> and \<open>1\<close>.
\<close>

definition ieee_laws :: "arith \<Rightarrow> bool" where
  "ieee_laws fp \<longleftrightarrow>
     (\<forall>x. is_fin x \<longrightarrow> fl_sub fp x x = Fin 0)
   \<and> (\<forall>x y. fl_sub fp y x = js_neg (fl_sub fp x y))
   \<and> fl_sub fp (Fin 1) (Fin 0) = Fin 1
   \<and> fl_add fp (Fin 0) (Fin 0) = Fin 0
   \<and> (\<forall>a b. fl_mul fp a b = fl_mul fp b a)
   \<and> (\<forall>a b. fl_mul fp (js_neg a) b = js_neg (fl_mul fp a b))
   \<and> (\<forall>b. is_fin b \<longrightarrow> fl_mul fp (Fin 0) b = Fin 0)
   \<and> (\<forall>a b. \<bar>a\<bar> \<le> 1 \<and> \<bar>b\<bar> \<le> 1 \<longrightarrow> is_fin (fl_mul fp (Fin a) (Fin b)))
   \<and> (\<forall>a b. fl_div fp (js_neg a) b = js_neg (fl_div fp a b))
   \<and> (\<forall>c. c \<noteq> 0 \<longrightarrow> fl_div fp (Fin 0) (Fin c) = Fin 0)
   \<and> (\<forall>a c. is_fin a \<and> 1 \<le> \<bar>c\<bar> \<longrightarrow> is_fin (fl_div fp a (Fin c)))
   \<and> Math_sin fp (Fin 0) = Fin 0
   \<and> (\<forall>x. Math_sin fp (js_neg x) = js_neg (Math_sin fp x))
   \<and> (\<forall>x. is_fin x \<longrightarrow> (\<exists>c. Math_cos fp x = Fin c \<and> \<bar>c\<bar> \<le> 1))
   \<and> Math_sqrt fp (Fin 0) = Fin 0
   \<and> Math_sqrt fp (Fin 1) = Fin 1
   \<and> Math_atan2 fp (Fin 0) (Fin 1) = Fin 0
   \<and> is_fin (Math_PI fp)"

text \<open>The exact arithmetic of the previous section.\<close>

definition exact_arith :: arith where
  "exact_arith =
     \<lparr> fl_add = js_add, fl_sub = js_sub, fl_mul = js_mul, fl_div = js_div,
       Math_sin = js_sin, Math_cos = js_cos, Math_sqrt = js_sqrt, Math_atan2 = js_atan2,
       Math_PI = Fin pi \<rparr>"



section \<open>Geo utility\<close>

text \<open>
  \<open>getDistanceKm(lat1, lon1, lat2, lon2)\<close> of \<open>api.js\<close>: the haversine distance with
  Earth radius 6371 km, the operations in the order of the source, in the arithmetic
  \<open>fp\<close>.
\<close>

definition getDistanceKm_in :: "arith \<Rightarrow> jsnum \<Rightarrow> jsnum \<Rightarrow> jsnum \<Rightarrow> jsnum \<Rightarrow> jsnum" where
  "getDistanceKm_in fp lat1 lon1 lat2 lon2 =
     (let R = Fin 6371;
          dLat = fl_div fp (fl_mul fp (fl_sub fp lat2 lat1) (Math_PI fp)) (Fin 180);
          dLon = fl_div fp (fl_mul fp (fl_sub fp lon2 lon1) (Math_PI fp)) (Fin 180);
          a = fl_add fp
                (fl_mul fp (Math_sin fp (fl_div fp dLat (Fin 2)))
                           (Math_sin fp (fl_div fp dLat (Fin 2))))
                (fl_mul fp
                  (fl_mul fp
                    (fl_mul fp
                      (Math_cos fp (fl_div fp (fl_mul fp lat1 (Math_PI fp)) (Fin 180)))
                      (Math_cos fp (fl_div fp (fl_mul fp lat2 (Math_PI fp)) (Fin 180))))
                    (Math_sin fp (fl_div fp dLon (Fin 2))))
                  (Math_sin fp (fl_div fp dLon (Fin 2))));
          c = fl_mul fp (Fin 2)
                (Math_atan2 fp (Math_sqrt fp a) (Math_sqrt fp (fl_sub fp (Fin 1) a)))
      in fl_mul fp R c)"

text \<open>
  The distance in the exact arithmetic, which the ETA calculator below uses. The
  statements about the calculator speak of the etas that it computes, of the filter,
  the sort and the truncation; none of them rests on the value of a distance between
  two different places.
\<close>

definition getDistanceKm :: "jsnum \<Rightarrow> jsnum \<Rightarrow> jsnum \<Rightarrow> jsnum \<Rightarrow> jsnum" where
  "getDistanceKm lat1 lon1 lat2 lon2 = getDistanceKm_in exact_arith lat1 lon1 lat2 lon2"

section \<open>JavaScript values\<close>

text \<open>
  The values the code handles: the results of \<open>JSON.parse\<close> on an upstream body, and
  \<open>undefined\<close> for an absent property. An object is the list of its own properties in
  the order in which \<open>for ... in\<close> enumerates them, with distinct keys.
\<close>

datatype jsval =
    Undefined
  | Null
  | Bool bool
  | Number jsnum
  | Str string
  | Arr "jsval list"
  | Obj "(string \<times> jsval) list"

datatype js_error = TypeError | SyntaxError | NetworkError | HttpError nat

fun truthy :: "jsval \<Rightarrow> bool" where
  "truthy Undefined = False"
| "truthy Null = False"
| "truthy (Bool b) = b"
| "truthy (Number n) = (n \<noteq> NaN \<and> n \<noteq> Fin 0)"
| "truthy (Str s) = (s \<noteq> [])"
| "truthy (Arr xs) = True"
| "truthy (Obj kvs) = True"

text \<open>The operator \<open>||\<close>: the left operand when it is truthy, the right one otherwise.\<close>

definition js_or :: "jsval \<Rightarrow> jsval \<Rightarrow> jsval" where
  "js_or a b = (if truthy a then a else b)"

definition num_or :: "jsnum \<Rightarrow> jsnum \<Rightarrow> jsnum" where
  "num_or a b = (if a \<noteq> NaN \<and> a \<noteq> Fin 0 then a else b)"

text \<open>
  Reading a property throws a \<open>TypeError\<close> on \<open>undefined\<close> and \<open>null\<close>. On every
  other value the read of one of the field names of the upstream records gives the own
  property of an object, and \<open>undefined\<close> otherwise (no prototype carries these names).
\<close>

fun nullish :: "jsval \<Rightarrow> bool" where
  "nullish Undefined = True"
| "nullish Null = True"
| "nullish _ = False"

fun field :: "jsval \<Rightarrow> string \<Rightarrow> jsval" where
  "field (Obj kvs) k = (case map_of kvs k of Some v \<Rightarrow> v | None \<Rightarrow> Undefined)"
| "field _ k = Undefined"

text \<open>
  A loop \<open>for (key in c) { if (c.hasOwnProperty(key)) ... c[key] ... }\<close>: the values
  \<open>c[key]\<close> that it visits, in order: the own properties of an object, the elements of
  an array, the characters of a string, and nothing for a number or a boolean. The
  guard calls the method \<open>hasOwnProperty\<close> of the container. An object with an own
  property of that name has a parsed value in the place of the method, and the call
  throws a \<open>TypeError\<close> at the first key.
\<close>

fun forin_values :: "jsval \<Rightarrow> js_error + jsval list" where
  "forin_values (Obj kvs) =
     (if ''hasOwnProperty'' \<in> set (map fst kvs) then Inl TypeError
      else Inr (map (\<lambda>k. field (Obj kvs) k) (map fst kvs)))"
| "forin_values (Arr xs) = Inr xs"
| "forin_values (Str s) = Inr (map (\<lambda>c. Str [c]) s)"
| "forin_values _ = Inr []"

text \<open>\<open>Array.prototype.map\<close> with a callback that may throw: the first exception wins.\<close>

fun map_throw :: "('a \<Rightarrow> js_error + 'b) \<Rightarrow> 'a list \<Rightarrow> js_error + 'b list" where
  "map_throw f [] = Inr []"
| "map_throw f (x # xs) =
     (case f x of
        Inl e \<Rightarrow> Inl e
      | Inr y \<Rightarrow> (case map_throw f xs of Inl e \<Rightarrow> Inl e | Inr ys \<Rightarrow> Inr (y # ys)))"

subsection \<open>Conversion to string\<close>

text \<open>
  A finite number prints its decimal digits as far as they go, at most twenty after
  the point: in plain notation from \<open>10^-6\<close> up to \<open>10^21\<close>, and with an exponent
  outside of that, as the language does. The digits are those of the exact number,
  which are the digits that the language prints for every integer below \<open>10^21\<close> in
  magnitude and for every decimal literal of ordinary length; the shortest digit
  string that rounds back to a double is not modelled.
\<close>

definition digit_char :: "nat \<Rightarrow> char" where
  "digit_char d = ''0123456789'' ! (d mod 10)"

function int_digits :: "int \<Rightarrow> string" where
  "int_digits n =
     (if n < 10 then [digit_char (nat n)]
      else int_digits (n div 10) @ [digit_char (nat (n mod 10))])"
  by pat_completeness auto
termination
  by (relation "measure nat") auto

declare int_digits.simps [simp del]

fun frac_digits :: "nat \<Rightarrow> real \<Rightarrow> string" where
  "frac_digits 0 f = []"
| "frac_digits (Suc n) f =
     (if f = 0 then []
      else digit_char (nat \<lfloor>10 * f\<rfloor>) # frac_digits n (10 * f - of_int \<lfloor>10 * f\<rfloor>))"

definition plain_string :: "real \<Rightarrow> string" where
  "plain_string r =
     int_digits \<lfloor>r\<rfloor>
     @ (if frac r = 0 then [] else ''.'' @ frac_digits 20 (frac r))"

text \<open>
  The number of times that a number below one is multiplied by ten until it is at
  least one, up to a bound; a positive number that needs more than 400 steps is below
  every double, and prints as zero.
\<close>

fun neg_exponent :: "nat \<Rightarrow> real \<Rightarrow> nat" where
  "neg_exponent 0 r = 0"
| "neg_exponent (Suc n) r = (if 1 \<le> r then 0 else Suc (neg_exponent n (10 * r)))"

definition pos_to_string :: "real \<Rightarrow> string" where
  "pos_to_string r =
     (if r = 0 then ''0''
      else if 10 ^ 21 \<le> r then
        (let e = length (int_digits \<lfloor>r\<rfloor>) - 1
         in plain_string (r / 10 ^ e) @ ''e+'' @ int_digits (int e))
      else if r < 1 / 10 ^ 6 then
        (let k = neg_exponent 400 r
         in if r * 10 ^ k < 1 then ''0''
            else plain_string (r * 10 ^ k) @ ''e-'' @ int_digits (int k))
      else plain_string r)"

fun number_to_string :: "jsnum \<Rightarrow> string" where
  "number_to_string NaN = ''NaN''"
| "number_to_string PosInf = ''Infinity''"
| "number_to_string NegInf = ''-Infinity''"
| "number_to_string (Fin r) =
     (if r < 0 \<and> pos_to_string (- r) \<noteq> ''0'' then ''-'' @ pos_to_string (- r)
      else pos_to_string \<bar>r\<bar>)"

text \<open>
  \<open>String(v)\<close> and the conversion inside a template literal. An array prints its
  elements joined by commas, \<open>undefined\<close> and \<open>null\<close> elements as the empty string. An
  object prints through the \<open>toString\<close> of the object prototype; the ids and names that
  the code converts are numbers and strings, and an object that carries a property
  \<open>toString\<close> of its own is outside the model.
\<close>

fun ToString :: "jsval \<Rightarrow> string"
  and join_elems :: "jsval list \<Rightarrow> string"
  and elem_string :: "jsval \<Rightarrow> string" where
  "ToString Undefined = ''undefined''"
| "ToString Null = ''null''"
| "ToString (Bool b) = (if b then ''true'' else ''false'')"
| "ToString (Number n) = number_to_string n"
| "ToString (Str s) = s"
| "ToString (Arr xs) = join_elems xs"
| "ToString (Obj kvs) = ''[object Object]''"
| "join_elems [] = []"
| "join_elems [x] = elem_string x"
| "join_elems (x # y # ys) = elem_string x @ '','' @ join_elems (y # ys)"
| "elem_string Undefined = []"
| "elem_string Null = []"
| "elem_string (Bool b) = ToString (Bool b)"
| "elem_string (Number n) = ToString (Number n)"
| "elem_string (Str s) = ToString (Str s)"
| "elem_string (Arr xs) = ToString (Arr xs)"
| "elem_string (Obj kvs) = ToString (Obj kvs)"

text \<open>
  \<open>SameValueZero\<close>, the equality of \<open>Map\<close> keys and of \<open>Array.prototype.includes\<close>:
  no conversion between types, and arrays and objects compared by identity. The
  values compared here come from different payloads, so two of them are never the
  same array or object.
\<close>

fun sameValueZero :: "jsval \<Rightarrow> jsval \<Rightarrow> bool" where
  "sameValueZero Undefined Undefined = True"
| "sameValueZero Null Null = True"
| "sameValueZero (Bool a) (Bool b) = (a = b)"
| "sameValueZero (Number a) (Number b) = (a = b)"
| "sameValueZero (Str a) (Str b) = (a = b)"
| "sameValueZero _ _ = False"

definition js_includes :: "jsval list \<Rightarrow> jsval \<Rightarrow> bool" where
  "js_includes xs v = list_ex (\<lambda>x. sameValueZero x v) xs"

text \<open>The strict equality \<open>===\<close> of two strings.\<close>

definition str_eq :: "string \<Rightarrow> string \<Rightarrow> bool" where
  "str_eq a b = (a = b)"

subsection \<open>Parsing numbers\<close>

text \<open>
  \<open>parseFloat\<close> and \<open>parseInt\<close> convert their argument to a string, skip leading white
  space and read the longest prefix that is a number; with no such prefix the result
  is not-a-number. Strings are byte strings here, so only the white space of ASCII is
  skipped.
\<close>

definition is_ws :: "char \<Rightarrow> bool" where
  "is_ws c = (c \<in> set [CHR 0x09, CHR 0x0A, CHR 0x0B, CHR 0x0C, CHR 0x0D, CHR '' ''])"

definition is_digit :: "char \<Rightarrow> bool" where
  "is_digit c = (c \<in> set ''0123456789'')"

definition is_hex_digit :: "char \<Rightarrow> bool" where
  "is_hex_digit c = (c \<in> set ''0123456789abcdefABCDEF'')"

definition hex_val :: "char \<Rightarrow> nat" where
  "hex_val c =
     (if c \<in> set ''0123456789'' then of_char c - 48
      else if c \<in> set ''abcdef'' then of_char c - 87
      else of_char c - 55)"

definition digits_val :: "nat \<Rightarrow> string \<Rightarrow> nat" where
  "digits_val radix ds = foldl (\<lambda>acc c. radix * acc + hex_val c) 0 ds"

text \<open>An optional sign: the factor it stands for, and the rest of the string.\<close>

fun read_sign :: "string \<Rightarrow> real \<times> string" where
  "read_sign [] = (1, [])"
| "read_sign (c # cs) =
     (if c = CHR ''-'' then (- 1, cs) else if c = CHR ''+'' then (1, cs) else (1, c # cs))"

text \<open>The exponent part \<open>e\<close>, sign, digits; it counts only when a digit follows.\<close>

fun read_exponent :: "string \<Rightarrow> int" where
  "read_exponent [] = 0"
| "read_exponent (c # cs) =
     (if c = CHR ''e'' \<or> c = CHR ''E'' then
        (let (sg, r) = read_sign cs; ds = takeWhile is_digit r
         in if ds = [] then 0
            else (if sg < 0 then - int (digits_val 10 ds) else int (digits_val 10 ds)))
      else 0)"

definition scale10 :: "real \<Rightarrow> int \<Rightarrow> real" where
  "scale10 m e = (if 0 \<le> e then m * 10 ^ nat e else m / 10 ^ nat (- e))"

definition parseFloat_str :: "string \<Rightarrow> jsnum" where
  "parseFloat_str s =
     (let (sg, r) = read_sign (dropWhile is_ws s)
      in if take 8 r = ''Infinity'' then (if sg < 0 then NegInf else PosInf)
         else
           (let ip = takeWhile is_digit r;
                r1 = dropWhile is_digit r;
                fp = (case r1 of [] \<Rightarrow> [] | c # t \<Rightarrow>
                        if c = CHR ''.'' then takeWhile is_digit t else []);
                r2 = (case r1 of [] \<Rightarrow> [] | c # t \<Rightarrow>
                        if c = CHR ''.'' then dropWhile is_digit t else r1)
            in if ip = [] \<and> fp = [] then NaN
               else Fin (sg * scale10
                           (real (digits_val 10 ip)
                              + real (digits_val 10 fp) / 10 ^ length fp)
                           (read_exponent r2))))"

definition parseInt_str :: "string \<Rightarrow> jsnum" where
  "parseInt_str s =
     (let (sg, r) = read_sign (dropWhile is_ws s)
      in if take 2 r = ''0x'' \<or> take 2 r = ''0X'' then
           (let ds = takeWhile is_hex_digit (drop 2 r)
            in if ds = [] then NaN else Fin (sg * real (digits_val 16 ds)))
         else
           (let ds = takeWhile is_digit r
            in if ds = [] then NaN else Fin (sg * real (digits_val 10 ds))))"

text \<open>
  A number survives the round trip through its string, so \<open>parseFloat\<close> of a number
  is the number itself.
\<close>

fun parseFloat :: "jsval \<Rightarrow> jsnum" where
  "parseFloat (Number n) = n"
| "parseFloat v = parseFloat_str (ToString v)"

definition parseInt :: "jsval \<Rightarrow> jsnum" where
  "parseInt v = parseInt_str (ToString v)"

text \<open>\<open>String.prototype.split\<close> at a separator character, and \<open>trim\<close> to the empty string.\<close>

fun split_at :: "char \<Rightarrow> string \<Rightarrow> string list" where
  "split_at sep [] = [[]]"
| "split_at sep (c # cs) =
     (if c = sep then [] # split_at sep cs
      else (case split_at sep cs of [] \<Rightarrow> [[c]] | p # ps \<Rightarrow> (c # p) # ps))"

definition trims_to_empty :: "string \<Rightarrow> bool" where
  "trims_to_empty s = list_all is_ws s"

section \<open>Domain normalizer\<close>

text \<open>
  The canonical entities are the object literals that the normalizers of \<open>api.js\<close>
  build. A field holds the value the code stores: the raw upstream value where the
  code copies it, a number where the code parses one.
\<close>

record route =
  route_id :: jsval
  route_name :: jsval
  route_shortName :: jsval
  route_color :: jsval
  route_points :: "(jsnum \<times> jsnum) list"
  route_groupId :: jsval
  route_active :: bool

record stop =
  stop_id :: jsval
  stop_name :: jsval
  stop_latitude :: jsnum
  stop_longitude :: jsnum
  stop_routeId :: jsval
  stop_routeName :: jsval
  stop_color :: jsval

record bus =
  bus_id :: jsval
  bus_busName :: jsval
  bus_routeId :: jsval
  bus_latitude :: jsnum
  bus_longitude :: jsnum
  bus_heading :: jsnum
  bus_speed :: jsnum
  bus_paxLoad :: jsval
  bus_timestamp :: jsval

text \<open>
  An arrival is built in two places, with different fields: \<open>calculateETAs\<close> sets
  \<open>distance\<close> and \<open>speed\<close>, \<open>getStopArrivals\<close> sets \<open>scheduledTime\<close>, and
  \<open>refreshArrivals\<close> adds \<open>routeColor\<close>. A field that an object lacks reads as
  \<open>undefined\<close>, and is \<open>Undefined\<close> here.
\<close>

record arrival =
  arr_busId :: jsval
  arr_busName :: jsval
  arr_routeId :: jsval
  arr_routeName :: jsval
  arr_routeColor :: jsval
  arr_eta :: jsnum
  arr_distance :: jsval
  arr_speed :: jsval
  arr_scheduledTime :: jsval
  arr_timestamp :: jsval

subsection \<open>Routes\<close>

text \<open>
  \<open>parseRoutePoints\<close>: the loop \<open>for (i = 0; i < parts.length - 1; i += 2)\<close> reads the
  parts two by two and leaves a last part without partner unread.
\<close>

fun point_pairs :: "string list \<Rightarrow> (jsnum \<times> jsnum) list" where
  "point_pairs (a # b # rest) =
     (let lat = parseFloat_str a; lng = parseFloat_str b
      in (if lat \<noteq> NaN \<and> lng \<noteq> NaN then [(lat, lng)] else []) @ point_pairs rest)"
| "point_pairs _ = []"

fun parseRoutePoints :: "jsval \<Rightarrow> js_error + (jsnum \<times> jsnum) list" where
  "parseRoutePoints (Str s) = (if s = [] then Inr [] else Inr (point_pairs (split_at CHR '','' s)))"
| "parseRoutePoints v = (if truthy v then Inl TypeError else Inr [])"

definition normalizeRoute :: "jsval \<Rightarrow> js_error + route" where
  "normalizeRoute r =
     (if nullish r then Inl TypeError
      else case parseRoutePoints (field r ''points'') of
        Inl e \<Rightarrow> Inl e
      | Inr pts \<Rightarrow> Inr \<lparr>
          route_id = js_or (field r ''myid'') (field r ''id''),
          route_name = js_or (field r ''name'')
                         (js_or (field r ''longName'') (Str (''Route '' @ ToString (field r ''id'')))),
          route_shortName = js_or (field r ''shortName'') (field r ''name''),
          route_color = js_or (field r ''color'') (Str ''#4a90d9''),
          route_points = pts,
          route_groupId = field r ''groupId'',
          route_active = True \<rparr>)"

text \<open>
  \<open>getRoutes\<close>, given the outcome of \<open>postRequest\<close>: an exception of the transport
  propagates, the function has no handler. \<open>routesArray.map\<close> is a function only on
  an array; on any other truthy container the call throws.
\<close>

definition getRoutes :: "js_error + jsval \<Rightarrow> js_error + route list" where
  "getRoutes outcome =
     (case outcome of
        Inl e \<Rightarrow> Inl e
      | Inr data \<Rightarrow>
          if \<not> truthy data then Inr []
          else (case js_or (field data ''all'') (Arr []) of
                  Arr routesArray \<Rightarrow> map_throw normalizeRoute routesArray
                | _ \<Rightarrow> Inl TypeError))"

subsection \<open>Stops\<close>

definition normalizeStop :: "jsval \<Rightarrow> js_error + stop" where
  "normalizeStop s =
     (if nullish s then Inl TypeError
      else Inr \<lparr>
        stop_id = js_or (field s ''id'') (field s ''stopId''),
        stop_name = js_or (field s ''name'') (Str (''Stop '' @ ToString (field s ''id''))),
        stop_latitude = parseFloat (field s ''latitude''),
        stop_longitude = parseFloat (field s ''longitude''),
        stop_routeId = field s ''routeId'',
        stop_routeName = field s ''routeName'',
        stop_color = js_or (field s ''color'') (Str ''#666666'') \<rparr>)"

definition getStops :: "js_error + jsval \<Rightarrow> js_error + stop list" where
  "getStops outcome =
     (case outcome of
        Inl e \<Rightarrow> Inl e
      | Inr data \<Rightarrow>
          if \<not> truthy data \<or> \<not> truthy (field data ''stops'') then Inr []
          else (case forin_values (field data ''stops'') of
                  Inl e \<Rightarrow> Inl e
                | Inr visited \<Rightarrow> map_throw normalizeStop visited))"

subsection \<open>Buses\<close>

text \<open>\<open>Date.now()\<close> is the parameter \<open>now\<close>.\<close>

definition normalizeBus :: "real \<Rightarrow> jsval \<Rightarrow> js_error + bus" where
  "normalizeBus now b =
     (if nullish b then Inl TypeError
      else Inr \<lparr>
        bus_id = js_or (field b ''busId'') (field b ''id''),
        bus_busName = js_or (field b ''busName'')
                        (js_or (field b ''name'')
                           (Str (''Bus '' @ ToString (js_or (field b ''busId'') (field b ''id''))))),
        bus_routeId = js_or (field b ''routeId'') (field b ''route''),
        bus_latitude = parseFloat (field b ''latitude''),
        bus_longitude = parseFloat (field b ''longitude''),
        bus_heading = num_or (parseFloat (field b ''heading'')) (Fin 0),
        bus_speed = num_or (parseFloat (field b ''speed'')) (Fin 0),
        bus_paxLoad = js_or (field b ''paxLoad'') (Number (Fin 0)),
        bus_timestamp = js_or (field b ''updated'')
                          (js_or (field b ''timestamp'') (Number (Fin now))) \<rparr>)"

text \<open>
  The flattening of the container: an array as it is; otherwise the values of the
  keyed map, a value that is an array spread into the result, any other value pushed.
\<close>

fun spread_item :: "jsval \<Rightarrow> jsval list" where
  "spread_item (Arr items) = items"
| "spread_item item = [item]"

fun flatten_container :: "jsval \<Rightarrow> js_error + jsval list" where
  "flatten_container (Arr xs) = Inr xs"
| "flatten_container c =
     (case forin_values c of
        Inl e \<Rightarrow> Inl e
      | Inr visited \<Rightarrow> Inr (concat (map spread_item visited)))"

definition getBuses :: "real \<Rightarrow> js_error + jsval \<Rightarrow> js_error + bus list" where
  "getBuses now outcome =
     (case outcome of
        Inl e \<Rightarrow> Inl e
      | Inr data \<Rightarrow>
          if \<not> truthy data \<or> \<not> truthy (field data ''buses'') then Inr []
          else (case flatten_container (field data ''buses'') of
                  Inl e \<Rightarrow> Inl e
                | Inr busesArray \<Rightarrow> map_throw (normalizeBus now) busesArray))"

subsection \<open>Upstream arrivals\<close>

definition normalizeArrival :: "real \<Rightarrow> jsval \<Rightarrow> js_error + arrival" where
  "normalizeArrival now a =
     (if nullish a then Inl TypeError
      else Inr \<lparr>
        arr_busId = js_or (field a ''busId'') (field a ''bus''),
        arr_busName = js_or (field a ''busName'') (Str (''Bus '' @ ToString (field a ''busId''))),
        arr_routeId = js_or (field a ''routeId'') (field a ''route''),
        arr_routeName = field a ''routeName'',
        arr_routeColor = Undefined,
        arr_eta = num_or (parseInt (js_or (field a ''eta'') (field a ''minutes''))) (Fin 0),
        arr_distance = Undefined,
        arr_speed = Undefined,
        arr_scheduledTime = js_or (field a ''scheduledTime'') (field a ''scheduled''),
        arr_timestamp = Number (Fin now) \<rparr>)"

text \<open>
  The body of the \<open>try\<close> block of \<open>getStopArrivals\<close>, where an exception of the
  transport or of the normalization is still an exception, and the function itself,
  whose \<open>catch\<close> turns every exception into the empty list.
\<close>

definition getStopArrivals_try :: "real \<Rightarrow> js_error + jsval \<Rightarrow> js_error + arrival list" where
  "getStopArrivals_try now outcome =
     (case outcome of
        Inl e \<Rightarrow> Inl e
      | Inr data \<Rightarrow>
          if \<not> truthy data then Inr []
          else (case (if truthy (field data ''arrivals'')
                      then flatten_container (field data ''arrivals'')
                      else Inr []) of
                  Inl e \<Rightarrow> Inl e
                | Inr arrivals \<Rightarrow> map_throw (normalizeArrival now) arrivals))"

definition getStopArrivals :: "real \<Rightarrow> js_error + jsval \<Rightarrow> js_error + arrival list" where
  "getStopArrivals now outcome =
     (case getStopArrivals_try now outcome of
        Inl e \<Rightarrow> Inr []
      | Inr arrivals \<Rightarrow> Inr arrivals)"

section \<open>ETA calculator\<close>

text \<open>
  \<open>Array.prototype.sort\<close> with a comparator is a stable sort: an element moves behind
  another only when the comparator of the two is positive; a comparator result that
  is not-a-number counts as zero. The model is the stable insertion sort. Where the
  comparator orders the elements consistently, as \<open>a.eta - b.eta\<close> does on finite etas,
  every stable sort gives this result. Where it does not (an eta that is
  not-a-number), the language leaves the order to the engine, and the order of the
  model is one permutation among those an engine may choose: the statements below
  use of such an output only its length and its elements, and of two elements that
  they are out of order either way round.
\<close>

fun js_insort :: "('a \<Rightarrow> 'a \<Rightarrow> jsnum) \<Rightarrow> 'a \<Rightarrow> 'a list \<Rightarrow> 'a list" where
  "js_insort cmp x [] = [x]"
| "js_insort cmp x (y # ys) =
     (if js_gt (cmp x y) (Fin 0) then y # js_insort cmp x ys else x # y # ys)"

fun js_sort :: "('a \<Rightarrow> 'a \<Rightarrow> jsnum) \<Rightarrow> 'a list \<Rightarrow> 'a list" where
  "js_sort cmp [] = []"
| "js_sort cmp (x # xs) = js_insort cmp x (js_sort cmp xs)"

text \<open>
  \<open>routeMap\<close>: the routes keyed by their id as it is, without conversion; a later
  route with the same key replaces an earlier one.
\<close>

definition routeMap_get :: "route list \<Rightarrow> jsval \<Rightarrow> route option" where
  "routeMap_get routes k = find (\<lambda>r. sameValueZero (route_id r) k) (rev routes)"

text \<open>The effective speed and the arrival that the callback of \<open>map\<close> builds.\<close>

definition avgSpeed :: "bus \<Rightarrow> jsnum" where
  "avgSpeed b =
     (if js_gt (bus_speed b) (Fin 0) then js_max (js_mul (bus_speed b) (Fin 1.6)) (Fin 15)
      else Fin 20)"

definition bus_distance :: "stop \<Rightarrow> bus \<Rightarrow> jsnum" where
  "bus_distance st b =
     getDistanceKm (bus_latitude b) (bus_longitude b) (stop_latitude st) (stop_longitude st)"

definition etaMinutes :: "stop \<Rightarrow> bus \<Rightarrow> jsnum" where
  "etaMinutes st b = js_round (js_mul (js_div (bus_distance st b) (avgSpeed b)) (Fin 60))"

definition bus_arrival :: "real \<Rightarrow> stop \<Rightarrow> route list \<Rightarrow> bus \<Rightarrow> arrival" where
  "bus_arrival now st routes b =
     (let route = routeMap_get routes (bus_routeId b)
      in \<lparr> arr_busId = bus_id b,
           arr_busName = bus_busName b,
           arr_routeId = bus_routeId b,
           arr_routeName =
             (case route of
                Some r \<Rightarrow> js_or (route_shortName r) (route_name r)
              | None \<Rightarrow> Str (''Route '' @ ToString (bus_routeId b))),
           arr_routeColor = (case route of Some r \<Rightarrow> route_color r | None \<Rightarrow> Str ''#4a90d9''),
           arr_eta = etaMinutes st b,
           arr_distance = Number (bus_distance st b),
           arr_speed = Number (bus_speed b),
           arr_scheduledTime = Undefined,
           arr_timestamp = Number (Fin now) \<rparr>)"

text \<open>
  The route filter is an array, or \<open>null\<close> (the default of the parameter), here
  \<open>None\<close>. It restricts the buses only when it is a non-empty array.
\<close>

definition filterBuses :: "jsval list option \<Rightarrow> bus list \<Rightarrow> bus list" where
  "filterBuses filterRouteIds buses =
     (case filterRouteIds of
        None \<Rightarrow> buses
      | Some f \<Rightarrow>
          if 0 < length f
          then filter (\<lambda>b. js_includes f (Str (ToString (bus_routeId b)))) buses
          else buses)"

definition eta_cmp :: "arrival \<Rightarrow> arrival \<Rightarrow> jsnum" where
  "eta_cmp a b = js_sub (arr_eta a) (arr_eta b)"

definition calculateETAs ::
  "real \<Rightarrow> bus list \<Rightarrow> stop \<Rightarrow> route list \<Rightarrow> jsval list option \<Rightarrow> arrival list" where
  "calculateETAs now buses st routes filterRouteIds =
     take 10 (js_sort eta_cmp (map (bus_arrival now st routes) (filterBuses filterRouteIds buses)))"

text \<open>The order that the claim on the output speaks of: each eta \<open><=\<close> the next.\<close>

fun nondecreasing :: "jsnum list \<Rightarrow> bool" where
  "nondecreasing (x # y # ys) = (js_le x y \<and> nondecreasing (y # ys))"
| "nondecreasing _ = True"

section \<open>Arrival reconciliation\<close>

text \<open>
  \<open>refreshArrivals\<close> of the application module. Its inputs are the module state
  (\<open>buses\<close>, \<open>routes\<close>), the stored route filter (always an array) and the outcome of
  the awaited \<open>API.getStopArrivals\<close>: an exception, or the returned value, where
  \<open>None\<close> is a \<open>null\<close> result. Its result is the list that it hands to
  \<open>UI.updateArrivals\<close>; the rendering itself is outside the model.
\<close>

definition keep_arrival :: "jsval list \<Rightarrow> arrival \<Rightarrow> bool" where
  "keep_arrival selectedRoutes a =
     (if length selectedRoutes = 0 then True
      else js_includes selectedRoutes (Str (ToString (arr_routeId a))))"

definition find_route :: "route list \<Rightarrow> jsval \<Rightarrow> route option" where
  "find_route routes rid = find (\<lambda>r. str_eq (ToString (route_id r)) (ToString rid)) routes"

definition enrich_arrival :: "route list \<Rightarrow> arrival \<Rightarrow> arrival" where
  "enrich_arrival routes a =
     (let route = find_route routes (arr_routeId a)
      in a \<lparr> arr_routeColor := (case route of Some r \<Rightarrow> route_color r | None \<Rightarrow> Str ''#4a90d9''),
             arr_routeName :=
               js_or (arr_routeName a)
                 (case route of
                    Some r \<Rightarrow> js_or (route_shortName r) (route_name r)
                  | None \<Rightarrow> Str (''Route '' @ ToString (arr_routeId a))) \<rparr>)"

definition refreshArrivals_try ::
  "real \<Rightarrow> bus list \<Rightarrow> route list \<Rightarrow> jsval list \<Rightarrow> stop
     \<Rightarrow> js_error + arrival list option \<Rightarrow> js_error + arrival list" where
  "refreshArrivals_try now buses routes selectedRoutes st fetched =
     (case fetched of
        Inl e \<Rightarrow> Inl e
      | Inr None \<Rightarrow> Inr (calculateETAs now buses st routes (Some selectedRoutes))
      | Inr (Some arrivals) \<Rightarrow>
          if length arrivals = 0
          then Inr (calculateETAs now buses st routes (Some selectedRoutes))
          else Inr (map (enrich_arrival routes) (filter (keep_arrival selectedRoutes) arrivals)))"

definition refreshArrivals ::
  "real \<Rightarrow> bus list \<Rightarrow> route list \<Rightarrow> jsval list \<Rightarrow> stop
     \<Rightarrow> js_error + arrival list option \<Rightarrow> js_error + arrival list" where
  "refreshArrivals now buses routes selectedRoutes st fetched =
     (case refreshArrivals_try now buses routes selectedRoutes st fetched of
        Inl e \<Rightarrow> Inr (calculateETAs now buses st routes (Some selectedRoutes))
      | Inr arrivals \<Rightarrow> Inr arrivals)"

text \<open>The value that the \<open>await\<close> in \<open>refreshArrivals\<close> receives from \<open>getStopArrivals\<close>.\<close>

definition awaited :: "js_error + arrival list \<Rightarrow> js_error + arrival list option" where
  "awaited r = (case r of Inl e \<Rightarrow> Inl e | Inr xs \<Rightarrow> Inr (Some xs))"

section \<open>Transport\<close>

text \<open>
  \<open>postRequest\<close> sends the request through the proxy at \<open>currentProxyIndex\<close> and, on
  any exception, moves to the next proxy and tries again; after the last proxy it
  rethrows. The network is a parameter: what the \<open>fetch\<close> through each proxy does.
  \<open>JSON.parse\<close> is a parameter too, \<open>None\<close> where it throws a \<open>SyntaxError\<close>.
\<close>

datatype proxy_type = allorigins | standard | corssh

definition CORS_PROXIES :: "(string \<times> proxy_type) list" where
  "CORS_PROXIES =
     [(''https://api.allorigins.win/post?url='', allorigins),
      (''https://corsproxy.io/?'', standard),
      (''https://proxy.cors.sh/'', corssh)]"

datatype fetch_outcome =
    FetchRejects
  | NotOk nat
  | TextRejects
  | Body string

text \<open>
  The text after the unwrapping of the \<open>allorigins\<close> envelope: \<open>wrapped.contents || text\<close>
  when the body parses and \<open>wrapped\<close> has properties, the body itself otherwise (the
  inner \<open>catch\<close> ignores the exception).
\<close>

definition unwrap_text :: "(string \<Rightarrow> jsval option) \<Rightarrow> proxy_type \<Rightarrow> string \<Rightarrow> jsval" where
  "unwrap_text parse ptype text =
     (if ptype = allorigins then
        (case parse text of
           None \<Rightarrow> Str text
         | Some wrapped \<Rightarrow>
             if nullish wrapped then Str text else js_or (field wrapped ''contents'') (Str text))
      else Str text)"

text \<open>One pass through the \<open>try\<close> block of \<open>postRequest\<close>.\<close>

definition attempt ::
  "(string \<Rightarrow> jsval option) \<Rightarrow> proxy_type \<Rightarrow> fetch_outcome \<Rightarrow> js_error + jsval" where
  "attempt parse ptype out =
     (case out of
        FetchRejects \<Rightarrow> Inl NetworkError
      | NotOk status \<Rightarrow> Inl (HttpError status)
      | TextRejects \<Rightarrow> Inl NetworkError
      | Body body \<Rightarrow>
          (case unwrap_text parse ptype body of
             Str text \<Rightarrow>
               if text = [] \<or> trims_to_empty text then Inr Null
               else (case parse text of None \<Rightarrow> Inl SyntaxError | Some v \<Rightarrow> Inr v)
           | v \<Rightarrow> if \<not> truthy v then Inr Null else Inl TypeError))"

text \<open>
  The result of \<open>postRequest\<close> and the value of \<open>currentProxyIndex\<close> after it. An index
  beyond the table reads \<open>undefined\<close>, and \<open>proxy.type\<close> throws inside the \<open>try\<close>.
\<close>

function postRequest ::
  "(string \<Rightarrow> jsval option) \<Rightarrow> (nat \<Rightarrow> fetch_outcome) \<Rightarrow> nat \<Rightarrow> (js_error + jsval) \<times> nat" where
  "postRequest parse net currentProxyIndex =
     (case (if currentProxyIndex < length CORS_PROXIES
            then attempt parse (snd (CORS_PROXIES ! currentProxyIndex)) (net currentProxyIndex)
            else Inl TypeError) of
        Inr v \<Rightarrow> (Inr v, currentProxyIndex)
      | Inl e \<Rightarrow>
          if currentProxyIndex < length CORS_PROXIES - 1
          then postRequest parse net (currentProxyIndex + 1)
          else (Inl e, currentProxyIndex))"
  by pat_completeness auto
termination
  by (relation "measure (\<lambda>(parse, net, i). length CORS_PROXIES - i)") auto

declare postRequest.simps [simp del]

section \<open>Polling coordinator\<close>

text \<open>
  The state that the timers and the views share: the current view and the selected
  stops of the interface module, the two interval handles of the application module,
  and the intervals that the browser runs, each with its callback. \<open>setInterval\<close>
  returns a fresh positive handle; a handle variable that holds \<open>null\<close> is \<open>None\<close>.
\<close>

datatype view = selection | details | busNav

datatype callback = cb_refreshBuses | cb_refreshArrivals stop | cb_updateCurrentTime

record app_state =
  currentView :: view
  selectedSourceStop :: "stop option"
  selectedDestStop :: "stop option"
  busRefreshInterval :: "nat option"
  arrivalsRefreshInterval :: "nat option"
  timers :: "(nat \<times> callback) list"
  nextTimer :: nat
  stops :: "stop list"
  defaultSource :: string
  defaultDest :: string

definition setInterval :: "callback \<Rightarrow> app_state \<Rightarrow> nat \<times> app_state" where
  "setInterval cb s =
     (nextTimer s, s \<lparr> timers := timers s @ [(nextTimer s, cb)], nextTimer := nextTimer s + 1 \<rparr>)"

definition clearInterval :: "nat \<Rightarrow> app_state \<Rightarrow> app_state" where
  "clearInterval h s = s \<lparr> timers := filter (\<lambda>t. fst t \<noteq> h) (timers s) \<rparr>"

text \<open>The test \<open>if (handle)\<close>: a handle that is set and is not zero.\<close>

fun handle_set :: "nat option \<Rightarrow> bool" where
  "handle_set None = False"
| "handle_set (Some h) = (h \<noteq> 0)"

definition clear_if_set :: "nat option \<Rightarrow> app_state \<Rightarrow> app_state" where
  "clear_if_set h s = (case h of Some i \<Rightarrow> if handle_set h then clearInterval i s else s | None \<Rightarrow> s)"

definition startBusPolling :: "app_state \<Rightarrow> app_state" where
  "startBusPolling s =
     (let s1 = clear_if_set (busRefreshInterval s) s;
          (h, s2) = setInterval cb_refreshBuses s1
      in s2 \<lparr> busRefreshInterval := Some h \<rparr>)"

definition startArrivalsPolling :: "stop \<Rightarrow> app_state \<Rightarrow> app_state" where
  "startArrivalsPolling st s =
     (let s1 = clear_if_set (arrivalsRefreshInterval s) s;
          (h, s2) = setInterval (cb_refreshArrivals st) s1
      in s2 \<lparr> arrivalsRefreshInterval := Some h \<rparr>)"

definition stopArrivalsPolling :: "app_state \<Rightarrow> app_state" where
  "stopArrivalsPolling s =
     (if handle_set (arrivalsRefreshInterval s)
      then (clear_if_set (arrivalsRefreshInterval s) s) \<lparr> arrivalsRefreshInterval := None \<rparr>
      else s)"

text \<open>
  The view functions of the interface module, without the rendering.
  \<open>showSelectionView\<close> ends in \<open>updateSelections\<close>, which sets the selected stops
  from the two dropdowns; what the dropdowns hold is the parameter \<open>chosen\<close>.
\<close>

definition showSelectionView :: "stop option \<times> stop option \<Rightarrow> app_state \<Rightarrow> app_state" where
  "showSelectionView chosen s =
     s \<lparr> currentView := selection,
         selectedSourceStop := fst chosen,
         selectedDestStop := snd chosen \<rparr>"

definition showDetailsView :: "stop \<Rightarrow> stop option \<Rightarrow> app_state \<Rightarrow> app_state" where
  "showDetailsView sourceStop destStop s =
     s \<lparr> currentView := details,
         selectedSourceStop := Some sourceStop,
         selectedDestStop := destStop \<rparr>"

definition find_stop :: "stop list \<Rightarrow> string \<Rightarrow> stop option" where
  "find_stop ss sid = find (\<lambda>x. str_eq (ToString (stop_id x)) sid) ss"

definition goBackToDetailsView :: "stop option \<times> stop option \<Rightarrow> app_state \<Rightarrow> app_state" where
  "goBackToDetailsView chosen s =
     (let sourceStop =
            (case selectedSourceStop s of
               Some x \<Rightarrow> Some x
             | None \<Rightarrow> if defaultSource s \<noteq> [] then find_stop (stops s) (defaultSource s) else None);
          destStop =
            (case selectedDestStop s of
               Some x \<Rightarrow> Some x
             | None \<Rightarrow> if defaultDest s \<noteq> [] then find_stop (stops s) (defaultDest s) else None)
      in case sourceStop of
           Some x \<Rightarrow> showDetailsView x destStop s
         | None \<Rightarrow> showSelectionView chosen s)"

text \<open>The click handler of the back button, and the search handler of the application.\<close>

definition backBtn_click :: "stop option \<times> stop option \<Rightarrow> app_state \<Rightarrow> app_state" where
  "backBtn_click chosen s =
     (if currentView s = busNav then goBackToDetailsView chosen s else showSelectionView chosen s)"

definition handleSearch :: "stop \<Rightarrow> stop option \<Rightarrow> app_state \<Rightarrow> app_state" where
  "handleSearch sourceStop destStop s =
     startArrivalsPolling sourceStop (showDetailsView sourceStop destStop s)"

text \<open>The state after \<open>App.init\<close> has started the bus polling, with no saved defaults.\<close>

definition init_state :: "stop list \<Rightarrow> app_state" where
  "init_state ss =
     startBusPolling
       \<lparr> currentView = selection, selectedSourceStop = None, selectedDestStop = None,
         busRefreshInterval = None, arrivalsRefreshInterval = None,
         timers = [(1, cb_updateCurrentTime)], nextTimer = 2,
         stops = ss, defaultSource = [], defaultDest = [] \<rparr>"

text \<open>The intervals that still run a refresh of the arrivals.\<close>

fun is_arrivals_timer :: "nat \<times> callback \<Rightarrow> bool" where
  "is_arrivals_timer (h, cb_refreshArrivals st) = True"
| "is_arrivals_timer _ = False"

definition arrivals_timers :: "app_state \<Rightarrow> (nat \<times> callback) list" where
  "arrivals_timers s = filter is_arrivals_timer (timers s)"

section \<open>Auxiliary notions for the proofs\<close>



text \<open>The order of two arrivals by eta.\<close>

definition eta_le :: "arrival \<Rightarrow> arrival \<Rightarrow> bool" where
  "eta_le a b = js_le (arr_eta a) (arr_eta b)"

text \<open>Sample data for the concrete statements: a stop, and a standing bus.\<close>

definition sample_stop :: stop where
  "sample_stop =
     \<lparr> stop_id = Number (Fin 1), stop_name = Str ''Vanderbilt Hall'',
       stop_latitude = Fin 42.338, stop_longitude = Fin (- 71.105),
       stop_routeId = Number (Fin 5), stop_routeName = Undefined,
       stop_color = Str ''#666666'' \<rparr>"

definition sample_bus :: "real \<Rightarrow> jsval \<Rightarrow> jsnum \<Rightarrow> bus" where
  "sample_bus n rid lat =
     \<lparr> bus_id = Number (Fin n), bus_busName = Str ''Bus'', bus_routeId = rid,
       bus_latitude = lat, bus_longitude = Fin (- 71.105),
       bus_heading = Fin 0, bus_speed = Fin 0,
       bus_paxLoad = Number (Fin 0), bus_timestamp = Number (Fin 0) \<rparr>"

text \<open>A standing bus at the place of the sample stop.\<close>

definition bus_at_stop :: "real \<Rightarrow> jsval \<Rightarrow> bus" where
  "bus_at_stop n rid = sample_bus n rid (stop_latitude sample_stop)"

definition sample_route :: route where
  "sample_route =
     \<lparr> route_id = Str ''5'', route_name = Str ''Longwood Shuttle'',
       route_shortName = Str ''M2'', route_color = Str ''#ff0000'',
       route_points = [], route_groupId = Undefined, route_active = True \<rparr>"

section \<open>Properties of the arithmetic\<close>


lemma js_add_NaN [simp]: "js_add a NaN = NaN"
  by (cases a) auto

lemma js_mul_NaN [simp]: "js_mul a NaN = NaN"
  by (cases a) auto

lemma js_div_NaN [simp]: "js_div a NaN = NaN"
  by (cases a) auto

lemma js_atan2_NaN [simp]: "js_atan2 a NaN = NaN"
  by (cases a) auto

lemma js_sub_Fin [simp]: "js_sub (Fin a) (Fin b) = Fin (a - b)"
  by (simp add: js_sub_def)

lemma js_sub_swap: "js_sub y x = js_neg (js_sub x y)"
  by (cases x; cases y) (auto simp: js_sub_def)

lemma inf_of_sign_minus: "inf_of_sign (- s) = js_neg (inf_of_sign s)"
  by (auto simp: inf_of_sign_def)

lemma sgn_of_neg: "sgn_of (js_neg a) = - sgn_of a"
  by (cases a) (auto simp: sgn_minus)

lemma js_mul_commute: "js_mul a b = js_mul b a"
  by (cases a; cases b) (auto simp: mult.commute)

lemma js_mul_neg: "js_mul (js_neg a) b = js_neg (js_mul a b)"
  by (cases a; cases b) (auto simp: inf_of_sign_minus[symmetric] sgn_minus)

lemma js_div_neg: "js_div (js_neg a) b = js_neg (js_div a b)"
  by (cases a; cases b) (auto simp: inf_of_sign_minus[symmetric] sgn_minus)

lemma js_sin_neg: "js_sin (js_neg x) = js_neg (js_sin x)"
  by (cases x) auto

lemma exact_arith_laws: "ieee_laws exact_arith"
proof -
  have 1: "\<forall>x. is_fin x \<longrightarrow> js_sub x x = Fin 0"
  proof (intro allI impI)
    fix x assume "is_fin x" then show "js_sub x x = Fin 0" by (cases x) auto
  qed
  have 2: "\<forall>x y. js_sub y x = js_neg (js_sub x y)"
    using js_sub_swap by blast
  have 3: "js_sub (Fin 1) (Fin 0) = Fin 1" by simp
  have 4: "js_add (Fin 0) (Fin 0) = Fin 0" by simp
  have 5: "\<forall>a b. js_mul a b = js_mul b a"
    using js_mul_commute by blast
  have 6: "\<forall>a b. js_mul (js_neg a) b = js_neg (js_mul a b)"
    using js_mul_neg by blast
  have 7: "\<forall>b. is_fin b \<longrightarrow> js_mul (Fin 0) b = Fin 0"
  proof (intro allI impI)
    fix b assume "is_fin b" then show "js_mul (Fin 0) b = Fin 0" by (cases b) auto
  qed
  have 8: "\<forall>a b. \<bar>a\<bar> \<le> 1 \<and> \<bar>b\<bar> \<le> 1 \<longrightarrow> is_fin (js_mul (Fin a) (Fin b))"
    by simp
  have 9: "\<forall>a b. js_div (js_neg a) b = js_neg (js_div a b)"
    using js_div_neg by blast
  have 10: "\<forall>c. c \<noteq> 0 \<longrightarrow> js_div (Fin 0) (Fin c) = Fin 0"
    by simp
  have 11: "\<forall>a c. is_fin a \<and> 1 \<le> \<bar>c\<bar> \<longrightarrow> is_fin (js_div a (Fin c))"
  proof (intro allI impI)
    fix a :: jsnum and c :: real assume "is_fin a \<and> 1 \<le> \<bar>c\<bar>"
    then show "is_fin (js_div a (Fin c))" by (cases a) auto
  qed
  have 12: "js_sin (Fin 0) = Fin 0" by simp
  have 13: "\<forall>x. js_sin (js_neg x) = js_neg (js_sin x)"
    using js_sin_neg by blast
  have 14: "\<forall>x. is_fin x \<longrightarrow> (\<exists>c. js_cos x = Fin c \<and> \<bar>c\<bar> \<le> 1)"
  proof (intro allI impI)
    fix x assume "is_fin x"
    then show "\<exists>c. js_cos x = Fin c \<and> \<bar>c\<bar> \<le> 1" by (cases x) (auto simp: abs_le_iff)
  qed
  have 15: "js_sqrt (Fin 0) = Fin 0" "js_sqrt (Fin 1) = Fin 1" by simp_all
  have 16: "js_atan2 (Fin 0) (Fin 1) = Fin 0" by (simp add: atan2_real_def)
  have 17: "is_fin (Fin pi)" by simp
  show ?thesis
    unfolding ieee_laws_def exact_arith_def arith.select_convs
    by (intro conjI) (fact 1 2 3 4 5 6 7 8 9 10 11 12 13 14 15 16 17)+
qed

text \<open>The laws, one by one.\<close>

lemma ieee_lawsD:
  assumes "ieee_laws fp"
  shows law_sub_self: "is_fin x \<Longrightarrow> fl_sub fp x x = Fin 0"
    and law_sub_swap: "fl_sub fp y x = js_neg (fl_sub fp x y)"
    and law_sub_1_0: "fl_sub fp (Fin 1) (Fin 0) = Fin 1"
    and law_add_0_0: "fl_add fp (Fin 0) (Fin 0) = Fin 0"
    and law_mul_commute: "fl_mul fp a b = fl_mul fp b a"
    and law_mul_neg: "fl_mul fp (js_neg a) b = js_neg (fl_mul fp a b)"
    and law_mul_0: "is_fin b \<Longrightarrow> fl_mul fp (Fin 0) b = Fin 0"
    and law_mul_small: "\<bar>u\<bar> \<le> 1 \<Longrightarrow> \<bar>v\<bar> \<le> 1 \<Longrightarrow> is_fin (fl_mul fp (Fin u) (Fin v))"
    and law_div_neg: "fl_div fp (js_neg a) b = js_neg (fl_div fp a b)"
    and law_div_0: "c \<noteq> 0 \<Longrightarrow> fl_div fp (Fin 0) (Fin c) = Fin 0"
    and law_div_fin: "is_fin a \<Longrightarrow> 1 \<le> \<bar>c\<bar> \<Longrightarrow> is_fin (fl_div fp a (Fin c))"
    and law_sin_0: "Math_sin fp (Fin 0) = Fin 0"
    and law_sin_neg: "Math_sin fp (js_neg x) = js_neg (Math_sin fp x)"
    and law_cos_fin: "is_fin x \<Longrightarrow> \<exists>w. Math_cos fp x = Fin w \<and> \<bar>w\<bar> \<le> 1"
    and law_sqrt_0: "Math_sqrt fp (Fin 0) = Fin 0"
    and law_sqrt_1: "Math_sqrt fp (Fin 1) = Fin 1"
    and law_atan2_0_1: "Math_atan2 fp (Fin 0) (Fin 1) = Fin 0"
    and law_pi_fin: "is_fin (Math_PI fp)"
proof -
  note c = assms[unfolded ieee_laws_def]
  show "is_fin x \<Longrightarrow> fl_sub fp x x = Fin 0"
    using c[THEN conjunct1] by blast
  show "fl_sub fp y x = js_neg (fl_sub fp x y)"
    using c[THEN conjunct2, THEN conjunct1] by blast
  show "fl_sub fp (Fin 1) (Fin 0) = Fin 1"
    using c[THEN conjunct2, THEN conjunct2, THEN conjunct1] by blast
  show "fl_add fp (Fin 0) (Fin 0) = Fin 0"
    using c[THEN conjunct2, THEN conjunct2, THEN conjunct2, THEN conjunct1] by blast
  show "fl_mul fp a b = fl_mul fp b a"
    using c[THEN conjunct2, THEN conjunct2, THEN conjunct2, THEN conjunct2, THEN conjunct1] by blast
  show "fl_mul fp (js_neg a) b = js_neg (fl_mul fp a b)"
    using c[THEN conjunct2, THEN conjunct2, THEN conjunct2, THEN conjunct2, THEN conjunct2, THEN conjunct1] by blast
  show "is_fin b \<Longrightarrow> fl_mul fp (Fin 0) b = Fin 0"
    using c[THEN conjunct2, THEN conjunct2, THEN conjunct2, THEN conjunct2, THEN conjunct2, THEN conjunct2, THEN conjunct1] by blast
  show "\<bar>u\<bar> \<le> 1 \<Longrightarrow> \<bar>v\<bar> \<le> 1 \<Longrightarrow> is_fin (fl_mul fp (Fin u) (Fin v))"
    using c[THEN conjunct2, THEN conjunct2, THEN conjunct2, THEN conjunct2, THEN conjunct2, THEN conjunct2, THEN conjunct2, THEN conjunct1] by blast
  show "fl_div fp (js_neg a) b = js_neg (fl_div fp a b)"
    using c[THEN conjunct2, THEN conjunct2, THEN conjunct2, THEN conjunct2, THEN conjunct2, THEN conjunct2, THEN conjunct2, THEN conjunct2, THEN conjunct1] by blast
  show "c \<noteq> 0 \<Longrightarrow> fl_div fp (Fin 0) (Fin c) = Fin 0"
    using c[THEN conjunct2, THEN conjunct2, THEN conjunct2, THEN conjunct2, THEN conjunct2, THEN conjunct2, THEN conjunct2, THEN conjunct2, THEN conjunct2, THEN conjunct1] by blast
  show "is_fin a \<Longrightarrow> 1 \<le> \<bar>c\<bar> \<Longrightarrow> is_fin (fl_div fp a (Fin c))"
    using c[THEN conjunct2, THEN conjunct2, THEN conjunct2, THEN conjunct2, THEN conjunct2, THEN conjunct2, THEN conjunct2, THEN conjunct2, THEN conjunct2, THEN conjunct2, THEN conjunct1] by blast
  show "Math_sin fp (Fin 0) = Fin 0"
    using c[THEN conjunct2, THEN conjunct2, THEN conjunct2, THEN conjunct2, THEN conjunct2, THEN conjunct2, THEN conjunct2, THEN conjunct2, THEN conjunct2, THEN conjunct2, THEN conjunct2, THEN conjunct1] by blast
  show "Math_sin fp (js_neg x) = js_neg (Math_sin fp x)"
    using c[THEN conjunct2, THEN conjunct2, THEN conjunct2, THEN conjunct2, THEN conjunct2, THEN conjunct2, THEN conjunct2, THEN conjunct2, THEN conjunct2, THEN conjunct2, THEN conjunct2, THEN conjunct2, THEN conjunct1] by blast
  show "is_fin x \<Longrightarrow> \<exists>w. Math_cos fp x = Fin w \<and> \<bar>w\<bar> \<le> 1"
    using c[THEN conjunct2, THEN conjunct2, THEN conjunct2, THEN conjunct2, THEN conjunct2, THEN conjunct2, THEN conjunct2, THEN conjunct2, THEN conjunct2, THEN conjunct2, THEN conjunct2, THEN conjunct2, THEN conjunct2, THEN conjunct1] by blast
  show "Math_sqrt fp (Fin 0) = Fin 0"
    using c[THEN conjunct2, THEN conjunct2, THEN conjunct2, THEN conjunct2, THEN conjunct2, THEN conjunct2, THEN conjunct2, THEN conjunct2, THEN conjunct2, THEN conjunct2, THEN conjunct2, THEN conjunct2, THEN conjunct2, THEN conjunct2, THEN conjunct1] by blast
  show "Math_sqrt fp (Fin 1) = Fin 1"
    using c[THEN conjunct2, THEN conjunct2, THEN conjunct2, THEN conjunct2, THEN conjunct2, THEN conjunct2, THEN conjunct2, THEN conjunct2, THEN conjunct2, THEN conjunct2, THEN conjunct2, THEN conjunct2, THEN conjunct2, THEN conjunct2, THEN conjunct2, THEN conjunct1] by blast
  show "Math_atan2 fp (Fin 0) (Fin 1) = Fin 0"
    using c[THEN conjunct2, THEN conjunct2, THEN conjunct2, THEN conjunct2, THEN conjunct2, THEN conjunct2, THEN conjunct2, THEN conjunct2, THEN conjunct2, THEN conjunct2, THEN conjunct2, THEN conjunct2, THEN conjunct2, THEN conjunct2, THEN conjunct2, THEN conjunct2, THEN conjunct1] by blast
  show "is_fin (Math_PI fp)"
    using c[THEN conjunct2, THEN conjunct2, THEN conjunct2, THEN conjunct2, THEN conjunct2, THEN conjunct2, THEN conjunct2, THEN conjunct2, THEN conjunct2, THEN conjunct2, THEN conjunct2, THEN conjunct2, THEN conjunct2, THEN conjunct2, THEN conjunct2, THEN conjunct2, THEN conjunct2] by blast
qed

section \<open>Properties of the geo utility\<close>

text \<open>
  The distance of a place to itself is zero in every arithmetic that obeys the laws,
  unless the product of the latitude with \<open>Math.PI\<close> overflows.
\<close>

lemma getDistanceKm_in_same:
  assumes laws: "ieee_laws fp"
    and fin: "is_fin lat" "is_fin lon" "is_fin (fl_mul fp lat (Math_PI fp))"
  shows "getDistanceKm_in fp lat lon lat lon = Fin 0"
proof -
  note L_sub_self = law_sub_self[OF laws] and L_sub_swap = law_sub_swap[OF laws] and L_sub_1_0 = law_sub_1_0[OF laws] and L_add_0_0 = law_add_0_0[OF laws] and L_mul_commute = law_mul_commute[OF laws] and L_mul_neg = law_mul_neg[OF laws] and L_mul_0 = law_mul_0[OF laws] and L_mul_small = law_mul_small[OF laws] and L_div_neg = law_div_neg[OF laws] and L_div_0 = law_div_0[OF laws] and L_div_fin = law_div_fin[OF laws] and L_sin_0 = law_sin_0[OF laws] and L_sin_neg = law_sin_neg[OF laws] and L_cos_fin = law_cos_fin[OF laws] and L_sqrt_0 = law_sqrt_0[OF laws] and L_sqrt_1 = law_sqrt_1[OF laws] and L_atan2_0_1 = law_atan2_0_1[OF laws] and L_pi_fin = law_pi_fin[OF laws]
  have m0': "fl_mul fp b (Fin 0) = Fin 0" if "is_fin b" for b
    using L_mul_commute[of b "Fin 0"] L_mul_0[OF that] by simp
  have dlat: "fl_div fp (fl_div fp (fl_mul fp (fl_sub fp lat lat) (Math_PI fp)) (Fin 180)) (Fin 2) = Fin 0"
    using L_sub_self[OF fin(1)] L_mul_0[OF L_pi_fin] L_div_0[of 180] L_div_0[of 2] by simp
  have dlon: "fl_div fp (fl_div fp (fl_mul fp (fl_sub fp lon lon) (Math_PI fp)) (Fin 180)) (Fin 2) = Fin 0"
    using L_sub_self[OF fin(2)] L_mul_0[OF L_pi_fin] L_div_0[of 180] L_div_0[of 2] by simp
  have "is_fin (fl_div fp (fl_mul fp lat (Math_PI fp)) (Fin 180))"
    using L_div_fin[OF fin(3), of 180] by simp
  then obtain w where w: "Math_cos fp (fl_div fp (fl_mul fp lat (Math_PI fp)) (Fin 180)) = Fin w"
      "\<bar>w\<bar> \<le> 1"
    using L_cos_fin by blast
  have ww: "is_fin (fl_mul fp (Fin w) (Fin w))"
    using L_mul_small[OF w(2) w(2)] .
  have z: "fl_mul fp (fl_mul fp (fl_mul fp (Fin w) (Fin w)) (Fin 0)) (Fin 0) = Fin 0"
    using m0'[OF ww] m0'[of "Fin 0"] by simp
  have zz: "fl_mul fp (Fin 0) (Fin 0) = Fin 0" using L_mul_0[of "Fin 0"] by simp
  have c0: "fl_mul fp (Fin 2) (Fin 0) = Fin 0" "fl_mul fp (Fin 6371) (Fin 0) = Fin 0"
    using m0'[of "Fin 2"] m0'[of "Fin 6371"] by simp_all
  show ?thesis
    unfolding getDistanceKm_in_def Let_def dlat dlon L_sin_0 w(1) z zz L_add_0_0 L_sqrt_0 L_sub_1_0 L_sqrt_1 L_atan2_0_1 c0
    by (rule refl)
qed






section \<open>Properties of the transport and of the upstream arrivals\<close>

lemma postRequest_all_reject:
  "postRequest parse (\<lambda>i. FetchRejects) 0 = (Inl NetworkError, 2)"
proof -
  have p2: "postRequest parse (\<lambda>i. FetchRejects) (Suc (Suc 0)) = (Inl NetworkError, 2)"
    by (subst postRequest.simps) (simp add: CORS_PROXIES_def attempt_def)
  have p1: "postRequest parse (\<lambda>i. FetchRejects) (Suc 0) = (Inl NetworkError, 2)"
    by (subst postRequest.simps) (simp add: CORS_PROXIES_def attempt_def p2)
  show ?thesis
    by (subst postRequest.simps) (simp add: CORS_PROXIES_def attempt_def p1)
qed

text \<open>
  C10. Whatever the transport does (a value, \<open>null\<close>, or an exception, among them
  the one that \<open>postRequest\<close> rethrows after the last proxy), \<open>getStopArrivals\<close> returns a
  list and throws nothing.
\<close>

theorem getStopArrivals_never_throws:
  "(\<exists>arrivals. getStopArrivals now outcome = Inr arrivals)
   \<and> (\<exists>arrivals. getStopArrivals now (fst (postRequest parse net i)) = Inr arrivals)"
  by (simp add: getStopArrivals_def split: sum.splits)

theorem getStopArrivals_never_throws_witness:
  "fst (postRequest (\<lambda>s. None) (\<lambda>i. FetchRejects) 0) = Inl NetworkError
   \<and> getStopArrivals 0 (fst (postRequest (\<lambda>s. None) (\<lambda>i. FetchRejects) 0)) = Inr []
   \<and> getStopArrivals 0 (Inr (Obj [(''arrivals'', Arr [Null])])) = Inr []
   \<and> getStopArrivals 0 (Inr (Obj [(''arrivals'', Number (Fin 7))])) = Inr []"
  using getStopArrivals_never_throws
    [of 0 "Inr (Obj [(''arrivals'', Arr [Null])])" "\<lambda>s. None" "\<lambda>i. FetchRejects" 0]
  by (simp add: postRequest_all_reject getStopArrivals_def getStopArrivals_try_def
        normalizeArrival_def)

section \<open>Properties of the reconciliation\<close>

text \<open>
  C1. When the awaited fetch of the upstream arrivals throws, or returns nothing or an
  empty list, \<open>refreshArrivals\<close> hands exactly \<open>calculateETAs(buses, stop, routes, filter)\<close>
  to the interface; and on no outcome of the fetch does it throw.
\<close>

theorem refreshArrivals_fallback:
  assumes "fetched = Inl e \<or> fetched = Inr None \<or> fetched = Inr (Some [])"
  shows "refreshArrivals now buses routes selectedRoutes st fetched =
           Inr (calculateETAs now buses st routes (Some selectedRoutes))
         \<and> (\<exists>shown. refreshArrivals now buses routes selectedRoutes st other = Inr shown)"
  using assms
  by (auto simp: refreshArrivals_def refreshArrivals_try_def split: sum.splits option.splits)

theorem refreshArrivals_fallback_witness:
  "refreshArrivals 0 [bus_at_stop 1 (Str ''5'')] [sample_route] [Str ''5''] sample_stop
      (awaited (getStopArrivals 0 (Inl NetworkError)))
   = Inr (calculateETAs 0 [bus_at_stop 1 (Str ''5'')] sample_stop [sample_route] (Some [Str ''5'']))"
proof -
  have "awaited (getStopArrivals 0 (Inl NetworkError)) = Inr (Some [])"
    by (simp add: awaited_def getStopArrivals_def getStopArrivals_try_def)
  then show ?thesis
    using refreshArrivals_fallback [of "Inr (Some [])" TypeError] by simp
qed

section \<open>Properties of the domain normalizer\<close>

lemma forin_values_distinct:
  assumes "distinct (map fst kvs)" and "''hasOwnProperty'' \<notin> set (map fst kvs)"
  shows "forin_values (Obj kvs) = Inr (map snd kvs)"
proof -
  have "field (Obj kvs) (fst kv) = snd kv" if "kv \<in> set kvs" for kv
  proof -
    have "map_of kvs (fst kv) = Some (snd kv)"
      using assms(1) that by (intro map_of_is_SomeI) simp_all
    then show ?thesis by simp
  qed
  then show ?thesis using assms(2) by (simp add: comp_def)
qed

lemma spread_arrays:
  "concat (map spread_item (map (\<lambda>kv. Arr (snd kv)) kvs)) = concat (map snd kvs)"
  by (induction kvs) auto

text \<open>
  C6, as the code has it. A \<open>buses\<close> container that is a keyed map of arrays, no key of
  which is \<open>hasOwnProperty\<close>, normalizes to the same result as the flat array of the same
  records in the same order: the same entities, or the same exception where a record
  is \<open>null\<close>.
\<close>

theorem getBuses_keyed_arrays_as_flat:
  assumes "distinct (map fst batches)"
    and "''hasOwnProperty'' \<notin> set (map fst batches)"
    and "field keyed ''buses'' = Obj (map (\<lambda>kv. (fst kv, Arr (snd kv))) batches)"
    and "field flat ''buses'' = Arr (concat (map snd batches))"
  shows "getBuses now (Inr keyed) = getBuses now (Inr flat)"
proof -
  have k: "truthy keyed" using assms(3) by (cases keyed) auto
  have f: "truthy flat" using assms(4) by (cases flat) auto
  have d: "distinct (map fst (map (\<lambda>kv. (fst kv, Arr (snd kv))) batches))"
    using assms(1) by (simp add: comp_def)
  have h: "''hasOwnProperty'' \<notin> set (map fst (map (\<lambda>kv. (fst kv, Arr (snd kv))) batches))"
    using assms(2) by (simp add: comp_def)
  have "flatten_container (field keyed ''buses'')
          = Inr (concat (map spread_item (map snd (map (\<lambda>kv. (fst kv, Arr (snd kv))) batches))))"
    unfolding assms(3)
    by (simp only: flatten_container.simps forin_values_distinct[OF d h] sum.case)
  also have "\<dots> = Inr (concat (map snd batches))"
    using spread_arrays[of batches] by (simp add: comp_def)
  finally have "flatten_container (field keyed ''buses'') = Inr (concat (map snd batches))" .
  moreover have "flatten_container (field flat ''buses'') = Inr (concat (map snd batches))"
    unfolding assms(4) by simp
  ultimately show ?thesis
    using k f assms(3,4) by (simp add: getBuses_def)
qed

theorem getBuses_keyed_arrays_as_flat_witness:
  "getBuses 0 (Inr (Obj [(''buses'',
       Obj [(''5'', Arr [Obj [(''busId'', Number (Fin 1)), (''routeId'', Number (Fin 5))],
                          Obj [(''busId'', Number (Fin 2)), (''routeId'', Number (Fin 5))]]),
            (''7'', Arr [Obj [(''busId'', Number (Fin 3)), (''routeId'', Number (Fin 7))]])])]))
   = getBuses 0 (Inr (Obj [(''buses'',
       Arr [Obj [(''busId'', Number (Fin 1)), (''routeId'', Number (Fin 5))],
            Obj [(''busId'', Number (Fin 2)), (''routeId'', Number (Fin 5))],
            Obj [(''busId'', Number (Fin 3)), (''routeId'', Number (Fin 7))]])]))"
  using getBuses_keyed_arrays_as_flat
    [of "[(''5'', [Obj [(''busId'', Number (Fin 1)), (''routeId'', Number (Fin 5))],
                   Obj [(''busId'', Number (Fin 2)), (''routeId'', Number (Fin 5))]]),
          (''7'', [Obj [(''busId'', Number (Fin 3)), (''routeId'', Number (Fin 7))]])]"
        "Obj [(''buses'',
       Obj [(''5'', Arr [Obj [(''busId'', Number (Fin 1)), (''routeId'', Number (Fin 5))],
                          Obj [(''busId'', Number (Fin 2)), (''routeId'', Number (Fin 5))]]),
            (''7'', Arr [Obj [(''busId'', Number (Fin 3)), (''routeId'', Number (Fin 7))]])])]"
        "Obj [(''buses'',
       Arr [Obj [(''busId'', Number (Fin 1)), (''routeId'', Number (Fin 5))],
            Obj [(''busId'', Number (Fin 2)), (''routeId'', Number (Fin 5))],
            Obj [(''busId'', Number (Fin 3)), (''routeId'', Number (Fin 7))]])]" 0]
  by simp

text \<open>
  C6 as stated fails on a keyed map with the key \<open>hasOwnProperty\<close>: the guard of the
  loop calls the array stored under that key, and \<open>getBuses\<close> throws, where the flat
  array of the same record normalizes to one bus.
\<close>

theorem getBuses_keyed_arrays_counterexample:
  "getBuses 0 (Inr (Obj [(''buses'',
       Obj [(''hasOwnProperty'', Arr [Obj [(''busId'', Number (Fin 1))]])])])) = Inl TypeError
   \<and> getBuses 0 (Inr (Obj [(''buses'', Arr [Obj [(''busId'', Number (Fin 1))]])]))
       \<noteq> Inl TypeError"
  by (simp add: getBuses_def normalizeBus_def)

text \<open>
  C7, as the code has it. A payload that is \<open>null\<close> or falsy, or whose top-level container
  is absent or falsy, normalizes to the empty sequence, without an exception.
\<close>

theorem normalizers_absent_container:
  "(\<not> truthy data \<or> \<not> truthy (field data ''all'') \<longrightarrow> getRoutes (Inr data) = Inr [])
   \<and> (\<not> truthy data \<or> \<not> truthy (field data ''stops'') \<longrightarrow> getStops (Inr data) = Inr [])
   \<and> (\<not> truthy data \<or> \<not> truthy (field data ''buses'') \<longrightarrow> getBuses now (Inr data) = Inr [])"
  by (auto simp: getRoutes_def getStops_def getBuses_def js_or_def)

theorem normalizers_absent_container_witness:
  "getRoutes (Inr Null) = Inr [] \<and> getStops (Inr Null) = Inr [] \<and> getBuses 0 (Inr Null) = Inr []
   \<and> getRoutes (Inr (Obj [(''error'', Str ''x'')])) = Inr []
   \<and> getStops (Inr (Obj [(''error'', Str ''x'')])) = Inr []
   \<and> getBuses 0 (Inr (Obj [(''error'', Str ''x'')])) = Inr []"
  using normalizers_absent_container [of Null 0]
        normalizers_absent_container [of "Obj [(''error'', Str ''x'')]" 0]
  by simp

text \<open>
  C7 as stated fails on a container of the wrong shape: \<open>getRoutes\<close> throws on an
  \<open>all\<close> that is a keyed map, and \<open>getBuses\<close> makes a bus of each character of a
  \<open>buses\<close> that is a string.
\<close>

theorem normalizers_malformed_container_counterexample:
  "getRoutes (Inr (Obj [(''all'', Obj [(''ID1'', Obj [(''myid'', Str ''5'')])])])) = Inl TypeError
   \<and> getBuses 0 (Inr (Obj [(''buses'', Str ''x'')])) \<noteq> Inr []"
  by (simp add: getRoutes_def getBuses_def js_or_def normalizeBus_def)

section \<open>Properties of the ETA calculator\<close>

lemma length_js_insort [simp]: "length (js_insort cmp x xs) = Suc (length xs)"
  by (induction xs) auto

lemma length_js_sort [simp]: "length (js_sort cmp xs) = length xs"
  by (induction xs) auto

lemma set_js_insort [simp]: "set (js_insort cmp x xs) = insert x (set xs)"
  by (induction xs) auto

lemma set_js_sort [simp]: "set (js_sort cmp xs) = set xs"
  by (induction xs) auto

text \<open>On arrivals whose etas are finite, the sort orders by eta.\<close>

lemma eta_le_total:
  "is_fin (arr_eta a) \<Longrightarrow> is_fin (arr_eta b) \<Longrightarrow> \<not> js_gt (eta_cmp a b) (Fin 0) \<Longrightarrow> eta_le a b"
  by (cases "arr_eta a"; cases "arr_eta b") (auto simp: eta_le_def js_le_def js_gt_def eta_cmp_def)

lemma eta_gt_le:
  "is_fin (arr_eta a) \<Longrightarrow> is_fin (arr_eta b) \<Longrightarrow> js_gt (eta_cmp a b) (Fin 0) \<Longrightarrow> eta_le b a"
  by (cases "arr_eta a"; cases "arr_eta b") (auto simp: eta_le_def js_le_def js_gt_def eta_cmp_def)

lemma eta_le_trans:
  "eta_le a b \<Longrightarrow> eta_le b c \<Longrightarrow> eta_le a c"
  by (cases "arr_eta a"; cases "arr_eta b"; cases "arr_eta c") (auto simp: eta_le_def js_le_def)

lemma sorted_js_insort:
  assumes "is_fin (arr_eta x)" "\<forall>y\<in>set xs. is_fin (arr_eta y)" "sorted_wrt eta_le xs"
  shows "sorted_wrt eta_le (js_insort eta_cmp x xs)"
  using assms
proof (induction xs)
  case Nil
  then show ?case by simp
next
  case (Cons y ys)
  show ?case
  proof (cases "js_gt (eta_cmp x y) (Fin 0)")
    case True
    then have "eta_le y x" using Cons.prems by (auto intro: eta_gt_le)
    then show ?thesis using True Cons by auto
  next
    case False
    then have xy: "eta_le x y" using Cons.prems by (auto intro: eta_le_total)
    then have "\<forall>z\<in>set ys. eta_le x z" using Cons.prems(3) by (auto intro: eta_le_trans)
    then show ?thesis using False xy Cons.prems by auto
  qed
qed

lemma sorted_js_sort:
  "\<forall>y\<in>set xs. is_fin (arr_eta y) \<Longrightarrow> sorted_wrt eta_le (js_sort eta_cmp xs)"
  by (induction xs) (auto intro: sorted_js_insort)

lemma nondecreasing_sorted_wrt:
  "sorted_wrt eta_le xs \<Longrightarrow> nondecreasing (map arr_eta xs)"
  by (induction xs rule: induct_list012) (auto simp: eta_le_def)

lemma arr_eta_bus_arrival [simp]: "arr_eta (bus_arrival now st routes b) = etaMinutes st b"
  by (simp add: bus_arrival_def Let_def)


text \<open>
  C2, as the code has it. The output never has more than ten arrivals; and when the eta
  computed for every bus that passes the route filter is a finite number, the etas of
  the output are in non-decreasing order. That rests on the sort and the truncation
  alone, which put any arrivals with finite etas in order, however the etas were
  computed.
\<close>

theorem calculateETAs_length_and_order:
  "length (calculateETAs now buses st routes f) \<le> 10
   \<and> (list_all (\<lambda>b. is_fin (etaMinutes st b)) (filterBuses f buses)
      \<longrightarrow> nondecreasing (map arr_eta (calculateETAs now buses st routes f)))
   \<and> (list_all (\<lambda>a. is_fin (arr_eta a)) arrivals
      \<longrightarrow> nondecreasing (map arr_eta (take 10 (js_sort eta_cmp arrivals))))"
proof -
  have order: "nondecreasing (map arr_eta (take 10 (js_sort eta_cmp xs)))"
    if "list_all (\<lambda>a. is_fin (arr_eta a)) xs" for xs
  proof -
    have "\<forall>a\<in>set xs. is_fin (arr_eta a)" using that by (simp add: list_all_iff)
    then have "sorted_wrt eta_le (js_sort eta_cmp xs)" by (rule sorted_js_sort)
    then have "sorted_wrt eta_le (take 10 (js_sort eta_cmp xs))" by (rule sorted_wrt_take)
    then show ?thesis by (rule nondecreasing_sorted_wrt)
  qed
  have "length (calculateETAs now buses st routes f) \<le> 10"
    by (simp add: calculateETAs_def)
  moreover have "nondecreasing (map arr_eta (calculateETAs now buses st routes f))"
    if "list_all (\<lambda>b. is_fin (etaMinutes st b)) (filterBuses f buses)"
    unfolding calculateETAs_def using that by (intro order) (simp add: list_all_iff)
  ultimately show ?thesis using order[of arrivals] by blast
qed

text \<open>The distance of the sample stop to itself, and a distance from no latitude.\<close>

lemma getDistanceKm_sample_stop:
  "getDistanceKm (stop_latitude sample_stop) (stop_longitude sample_stop)
     (stop_latitude sample_stop) (stop_longitude sample_stop) = Fin 0"
  unfolding getDistanceKm_def
  by (rule getDistanceKm_in_same[OF exact_arith_laws]) (simp_all add: sample_stop_def exact_arith_def)

lemma getDistanceKm_NaN [simp]: "getDistanceKm NaN lon1 lat2 lon2 = NaN"
  by (simp add: getDistanceKm_def getDistanceKm_in_def exact_arith_def js_sub_def Let_def)

lemma eta_bus_at_stop: "etaMinutes sample_stop (bus_at_stop n rid) = Fin 0"
proof -
  have "bus_distance sample_stop (bus_at_stop n rid) = Fin 0"
    using getDistanceKm_sample_stop
    by (simp add: bus_distance_def bus_at_stop_def sample_bus_def sample_stop_def)
  then show ?thesis
    by (simp add: etaMinutes_def avgSpeed_def bus_at_stop_def sample_bus_def js_gt_def)
qed

lemma eta_without_latitude: "etaMinutes sample_stop (sample_bus n rid NaN) = NaN"
  by (simp add: etaMinutes_def bus_distance_def avgSpeed_def sample_stop_def sample_bus_def
        js_gt_def)

lemma parseFloat_undefined: "parseFloat_str ''undefined'' = NaN"
  by (simp add: parseFloat_str_def is_ws_def is_digit_def)

lemma missing_latitude:
  "normalizeBus now (Obj [(''busId'', Number (Fin 1)), (''longitude'', Number (Fin (- 71.105)))]) = Inr b
   \<Longrightarrow> bus_latitude b = NaN"
  by (auto simp: normalizeBus_def parseFloat_undefined)

theorem calculateETAs_length_and_order_witness:
  "length (calculateETAs 0 [bus_at_stop 1 (Number (Fin 5)), bus_at_stop 2 (Number (Fin 7))]
             sample_stop [] None) \<le> 10
   \<and> list_all (\<lambda>b. is_fin (etaMinutes sample_stop b))
        (filterBuses None [bus_at_stop 1 (Number (Fin 5)), bus_at_stop 2 (Number (Fin 7))])
   \<and> nondecreasing (map arr_eta
         (calculateETAs 0 [bus_at_stop 1 (Number (Fin 5)), bus_at_stop 2 (Number (Fin 7))]
            sample_stop [] None))
   \<and> list_all (\<lambda>a. is_fin (arr_eta a))
        [(bus_arrival 0 sample_stop [] (bus_at_stop 1 (Number (Fin 5))))\<lparr>arr_eta := Fin 7\<rparr>,
         (bus_arrival 0 sample_stop [] (bus_at_stop 2 (Number (Fin 5))))\<lparr>arr_eta := Fin 3\<rparr>]
   \<and> nondecreasing (map arr_eta (take 10 (js_sort eta_cmp
        [(bus_arrival 0 sample_stop [] (bus_at_stop 1 (Number (Fin 5))))\<lparr>arr_eta := Fin 7\<rparr>,
         (bus_arrival 0 sample_stop [] (bus_at_stop 2 (Number (Fin 5))))\<lparr>arr_eta := Fin 3\<rparr>])))"
  using calculateETAs_length_and_order
    [of 0 "[bus_at_stop 1 (Number (Fin 5)), bus_at_stop 2 (Number (Fin 7))]" sample_stop "[]" None
        "[(bus_arrival 0 sample_stop [] (bus_at_stop 1 (Number (Fin 5))))\<lparr>arr_eta := Fin 7\<rparr>,
          (bus_arrival 0 sample_stop [] (bus_at_stop 2 (Number (Fin 5))))\<lparr>arr_eta := Fin 3\<rparr>]"]
  by (simp add: filterBuses_def eta_bus_at_stop)

text \<open>
  C2 as stated fails when a bus has no latitude: its eta is not-a-number, which is
  neither \<open><=\<close> nor \<open>>=\<close> any other eta, so the two etas are out of order whichever
  way round the engine leaves them.
\<close>

theorem calculateETAs_order_counterexample:
  "\<not> nondecreasing (map arr_eta (calculateETAs 0
         [sample_bus 1 (Number (Fin 5)) NaN, bus_at_stop 2 (Number (Fin 5))]
         sample_stop [] None))
   \<and> \<not> nondecreasing (rev (map arr_eta (calculateETAs 0
         [sample_bus 1 (Number (Fin 5)) NaN, bus_at_stop 2 (Number (Fin 5))]
         sample_stop [] None)))"
  by (simp add: calculateETAs_def filterBuses_def eta_cmp_def eta_bus_at_stop
        eta_without_latitude js_sub_def js_gt_def js_le_def)

lemma arr_busId_bus_arrival [simp]: "arr_busId (bus_arrival now st routes b) = bus_id b"
  by (simp add: bus_arrival_def Let_def)

lemma filterBuses_unrestricted:
  "f = None \<or> f = Some [] \<Longrightarrow> filterBuses f buses = buses"
  by (auto simp: filterBuses_def)

lemma filterBuses_restricted:
  "g \<noteq> [] \<Longrightarrow>
   filterBuses (Some g) buses = filter (\<lambda>b. js_includes g (Str (ToString (bus_routeId b)))) buses"
  by (simp add: filterBuses_def)

lemma calculateETAs_from_buses:
  assumes "a \<in> set (calculateETAs now buses st routes f)"
  shows "\<exists>b\<in>set (filterBuses f buses). a = bus_arrival now st routes b"
proof -
  have "a \<in> set (js_sort eta_cmp (map (bus_arrival now st routes) (filterBuses f buses)))"
    using assms unfolding calculateETAs_def by (rule in_set_takeD)
  then show ?thesis by auto
qed

text \<open>
  C3, as the code has it. With an absent or empty filter no bus is left out for its
  route: the output holds \<open>min(10, number of buses)\<close> arrivals, each of a bus of the
  input, and every bus when there are at most ten. With a non-empty filter every
  arrival is of a bus whose route id, as a string, is an element of the filter.
\<close>

theorem calculateETAs_route_filter:
  "(f = None \<or> f = Some [] \<longrightarrow>
      length (calculateETAs now buses st routes f) = min 10 (length buses)
      \<and> set (calculateETAs now buses st routes f) \<subseteq> bus_arrival now st routes ` set buses
      \<and> (length buses \<le> 10 \<longrightarrow>
           set (calculateETAs now buses st routes f) = bus_arrival now st routes ` set buses))
   \<and> (\<forall>g. f = Some g \<and> g \<noteq> [] \<longrightarrow>
        (\<forall>a\<in>set (calculateETAs now buses st routes f).
           \<exists>b\<in>set buses. a = bus_arrival now st routes b
              \<and> js_includes g (Str (ToString (bus_routeId b)))))"
proof (intro conjI impI allI)
  assume u: "f = None \<or> f = Some []"
  show "length (calculateETAs now buses st routes f) = min 10 (length buses)"
    using filterBuses_unrestricted[OF u] by (simp add: calculateETAs_def min.commute)
  show "set (calculateETAs now buses st routes f) \<subseteq> bus_arrival now st routes ` set buses"
    using calculateETAs_from_buses[of _ now buses st routes f] filterBuses_unrestricted[OF u]
    by auto
  show "set (calculateETAs now buses st routes f) = bus_arrival now st routes ` set buses"
    if "length buses \<le> 10"
    using that filterBuses_unrestricted[OF u] by (simp add: calculateETAs_def)
next
  fix g
  assume r: "f = Some g \<and> g \<noteq> []"
  show "\<forall>a\<in>set (calculateETAs now buses st routes f).
           \<exists>b\<in>set buses. a = bus_arrival now st routes b
              \<and> js_includes g (Str (ToString (bus_routeId b)))"
  proof
    fix a
    assume "a \<in> set (calculateETAs now buses st routes f)"
    then obtain b where "b \<in> set (filterBuses f buses)" "a = bus_arrival now st routes b"
      using calculateETAs_from_buses by blast
    then show "\<exists>b\<in>set buses. a = bus_arrival now st routes b
              \<and> js_includes g (Str (ToString (bus_routeId b)))"
      using r filterBuses_restricted[of g buses] by auto
  qed
qed

lemma bus_id_at_stop [simp]: "bus_id (bus_at_stop n rid) = Number (Fin n)"
  by (simp add: bus_at_stop_def sample_bus_def)

lemma bus_routeId_at_stop [simp]: "bus_routeId (bus_at_stop n rid) = rid"
  by (simp add: bus_at_stop_def sample_bus_def)

theorem calculateETAs_route_filter_witness:
  "length (calculateETAs 0
       [bus_at_stop 1 (Str ''5''), bus_at_stop 2 (Number (Fin 7))]
       sample_stop [] None) = 2
   \<and> map arr_busId (calculateETAs 0
       [bus_at_stop 1 (Str ''5''), bus_at_stop 2 (Number (Fin 7))]
       sample_stop [] (Some [Str ''5''])) = [Number (Fin 1)]"
proof -
  let ?B = "[bus_at_stop 1 (Str ''5''), bus_at_stop 2 (Number (Fin 7))]"
  have "length (calculateETAs 0 ?B sample_stop [] None) = min 10 (length ?B)"
    using calculateETAs_route_filter [of None 0 ?B sample_stop "[]"] by blast
  moreover have "\<forall>a\<in>set (calculateETAs 0 ?B sample_stop [] (Some [Str ''5''])).
           \<exists>b\<in>set ?B. a = bus_arrival 0 sample_stop [] b
              \<and> js_includes [Str ''5''] (Str (ToString (bus_routeId b)))"
    using calculateETAs_route_filter [of "Some [Str ''5'']" 0 ?B sample_stop "[]"] by blast
  moreover have "map arr_busId (calculateETAs 0 ?B sample_stop [] (Some [Str ''5'']))
                  = [Number (Fin 1)]"
    by (simp add: calculateETAs_def filterBuses_def js_includes_def pos_to_string_def plain_string_def
          int_digits.simps digit_char_def)
  ultimately show ?thesis by simp
qed

text \<open>
  C3 as stated fails on more than ten buses: with no filter, eleven buses give ten
  arrivals, and the eleventh bus has none.
\<close>

lemma js_sort_unmoved:
  "\<forall>x\<in>set xs. \<forall>y\<in>set xs. \<not> js_gt (cmp x y) (Fin 0) \<Longrightarrow> js_sort cmp xs = xs"
proof (induction xs)
  case Nil
  then show ?case by simp
next
  case (Cons x xs)
  then have "js_sort cmp xs = xs" by simp
  then show ?case using Cons.prems by (cases xs) auto
qed

lemma calculateETAs_at_stop:
  assumes "\<forall>b\<in>set buses. etaMinutes st b = Fin 0"
  shows "calculateETAs now buses st routes None = take 10 (map (bus_arrival now st routes) buses)"
proof -
  have "js_sort eta_cmp (map (bus_arrival now st routes) buses)
          = map (bus_arrival now st routes) buses"
    using assms by (intro js_sort_unmoved) (auto simp: eta_cmp_def js_gt_def)
  then show ?thesis by (simp add: calculateETAs_def filterBuses_def)
qed

theorem calculateETAs_every_bus_counterexample:
  "Number (Fin 11) \<in> set (map bus_id
       [bus_at_stop 1 (Str ''5''), bus_at_stop 2 (Str ''5''), bus_at_stop 3 (Str ''5''),
        bus_at_stop 4 (Str ''5''), bus_at_stop 5 (Str ''5''), bus_at_stop 6 (Str ''5''),
        bus_at_stop 7 (Str ''5''), bus_at_stop 8 (Str ''5''), bus_at_stop 9 (Str ''5''),
        bus_at_stop 10 (Str ''5''), bus_at_stop 11 (Str ''5'')])
   \<and> Number (Fin 11) \<notin> set (map arr_busId (calculateETAs 0
       [bus_at_stop 1 (Str ''5''), bus_at_stop 2 (Str ''5''), bus_at_stop 3 (Str ''5''),
        bus_at_stop 4 (Str ''5''), bus_at_stop 5 (Str ''5''), bus_at_stop 6 (Str ''5''),
        bus_at_stop 7 (Str ''5''), bus_at_stop 8 (Str ''5''), bus_at_stop 9 (Str ''5''),
        bus_at_stop 10 (Str ''5''), bus_at_stop 11 (Str ''5'')]
       sample_stop [] None))"
proof -
  let ?B = "[bus_at_stop 1 (Str ''5''), bus_at_stop 2 (Str ''5''), bus_at_stop 3 (Str ''5''),
        bus_at_stop 4 (Str ''5''), bus_at_stop 5 (Str ''5''), bus_at_stop 6 (Str ''5''),
        bus_at_stop 7 (Str ''5''), bus_at_stop 8 (Str ''5''), bus_at_stop 9 (Str ''5''),
        bus_at_stop 10 (Str ''5''), bus_at_stop 11 (Str ''5'')]"
  have "\<forall>b\<in>set ?B. etaMinutes sample_stop b = Fin 0"
    by (simp add: eta_bus_at_stop)
  then have "calculateETAs 0 ?B sample_stop [] None
               = take 10 (map (bus_arrival 0 sample_stop []) ?B)"
    by (rule calculateETAs_at_stop)
  then show ?thesis by simp
qed



text \<open>
  C5 at a bus whose route id is the number 5 and a route whose id is the string
  \<open>"5"\<close>: the ids agree as strings, and the join of \<open>refreshArrivals\<close> finds the
  route; the lookup of \<open>calculateETAs\<close> does not, and the arrival gets the name and the
  colour of an unknown route.
\<close>

theorem calculateETAs_route_lookup_unnormalized:
  "ToString (bus_routeId (bus_at_stop 1 (Number (Fin 5)))) = ToString (route_id sample_route)
   \<and> find_route [sample_route] (Number (Fin 5)) = Some sample_route
   \<and> map arr_routeName (calculateETAs 0 [bus_at_stop 1 (Number (Fin 5))]
                          sample_stop [sample_route] None) = [Str ''Route 5'']
   \<and> map arr_routeColor (calculateETAs 0 [bus_at_stop 1 (Number (Fin 5))]
                           sample_stop [sample_route] None) = [Str ''#4a90d9'']"
  by (simp add: calculateETAs_def filterBuses_def bus_arrival_def routeMap_get_def
        find_route_def str_eq_def sample_route_def Let_def pos_to_string_def
        plain_string_def int_digits.simps digit_char_def)

section \<open>Properties of the polling coordinator\<close>

text \<open>No view function touches an interval: the back button leaves every timer running.\<close>

lemma backBtn_click_timers:
  "timers (backBtn_click chosen s) = timers s
   \<and> arrivalsRefreshInterval (backBtn_click chosen s) = arrivalsRefreshInterval s
   \<and> busRefreshInterval (backBtn_click chosen s) = busRefreshInterval s"
  by (simp add: backBtn_click_def goBackToDetailsView_def showSelectionView_def
        showDetailsView_def Let_def split: option.splits)

lemma stopArrivalsPolling_clears:
  "handle_set (arrivalsRefreshInterval s) \<Longrightarrow>
   arrivalsRefreshInterval s = Some h \<Longrightarrow>
   timers (stopArrivalsPolling s) = filter (\<lambda>t. fst t \<noteq> h) (timers s)
   \<and> arrivalsRefreshInterval (stopArrivalsPolling s) = None"
  by (simp add: stopArrivalsPolling_def clear_if_set_def clearInterval_def)

text \<open>
  C9 at a search for a stop followed by the back button: the view is the selection
  view again, and the interval that refreshes the arrivals of the stop still runs,
  beside the bus interval. \<open>stopArrivalsPolling\<close> would cancel it, but nothing calls it.
\<close>

theorem back_to_selection_keeps_arrivals_timer:
  "currentView (handleSearch sample_stop None (init_state [sample_stop])) = details
   \<and> currentView (backBtn_click (None, None)
        (handleSearch sample_stop None (init_state [sample_stop]))) = selection
   \<and> timers (backBtn_click (None, None)
        (handleSearch sample_stop None (init_state [sample_stop])))
      = [(1, cb_updateCurrentTime), (2, cb_refreshBuses), (3, cb_refreshArrivals sample_stop)]
   \<and> arrivals_timers (backBtn_click (None, None)
        (handleSearch sample_stop None (init_state [sample_stop])))
      = [(3, cb_refreshArrivals sample_stop)]
   \<and> arrivals_timers (stopArrivalsPolling
        (handleSearch sample_stop None (init_state [sample_stop]))) = []"
  by (simp add: handleSearch_def init_state_def backBtn_click_def showSelectionView_def
        showDetailsView_def startArrivalsPolling_def startBusPolling_def stopArrivalsPolling_def
        setInterval_def clearInterval_def clear_if_set_def arrivals_timers_def Let_def)

end
